theory Spec2Isabelle
  imports Main
begin

section \<open>Data model of \<open>src/gcal.py\<close>\<close>

text \<open>
  Python strings are modelled as \<open>string\<close>, read as the UTF-8 bytes of the text:
  \<open>urllib.parse.quote_plus\<close> encodes a \<open>str\<close> to UTF-8 before escaping, so bytes are
  what the query string is built from, and an f-string is concatenation.
  A Python \<open>dict\<close> keeps insertion order and \<open>urlencode\<close> walks it in that order, so a
  dict is an association list; \<open>d[k] = v\<close> is \<open>dict_set\<close>.
\<close>

datatype HttpMethod = GET | POST | PUT | PATCH | DELETE

text \<open>JSON-like values (\<open>Any\<close> in a body or a response); \<open>JNull\<close> is Python's \<open>None\<close>.
  Floating-point numbers are left out.\<close>

datatype json =
    JNull
  | JBool bool
  | JInt int
  | JStr string
  | JList "json list"
  | JObj "(string \<times> json) list"

text \<open>The values of a \<open>params\<close> dict. Every tool of the module passes strings; \<open>request\<close>
  filters \<open>None\<close> and hands anything else to \<open>urlencode\<close>, which applies \<open>str\<close> to a value
  that is not a string.\<close>

datatype pyval = PNone | PStr string | PBool bool

type_synonym params = "(string \<times> pyval) list"
type_synonym py_dict = "(string \<times> json) list"

text \<open>\<open>HttpRequest(method=..., path=..., body=...)\<close> of \<open>dedalus_mcp\<close>.\<close>

record HttpRequest =
  req_method :: HttpMethod
  req_path :: string
  req_body :: "py_dict option"

text \<open>What \<open>ctx.dispatch\<close> returns, with the attributes \<open>request\<close> reads:
  \<open>response.success\<close>, \<open>response.response.body\<close>, \<open>response.error\<close> (tested for
  truth, so it may be \<open>None\<close>) and \<open>response.error.message\<close>.\<close>

record HttpResponse =
  resp_body :: json

record DispatchError =
  message :: string

record DispatchResponse =
  disp_success :: bool
  disp_response :: "HttpResponse option"
  disp_error :: "DispatchError option"

text \<open>\<open>class GCalResult(BaseModel)\<close>: \<open>data: Any = None\<close>, \<open>error: str | None = None\<close>.\<close>

record GCalResult =
  success :: bool
  data :: json
  error :: "string option"

text \<open>Reading \<open>.body\<close> of a missing \<open>response.response\<close> raises.\<close>

datatype py_error = AttributeError

text \<open>The context of a call: \<open>handler\<close> is the dispatch capability (authentication,
  transport and the remote service, all outside the module), \<open>sent\<close> the requests
  dispatched so far, each with the connection name it was dispatched under.\<close>

record ctx =
  handler :: "string \<Rightarrow> HttpRequest \<Rightarrow> DispatchResponse"
  sent :: "(string \<times> HttpRequest) list"

definition dispatch :: "ctx \<Rightarrow> string \<Rightarrow> HttpRequest \<Rightarrow> DispatchResponse \<times> ctx" where
  "dispatch c name req = (handler c name req, c\<lparr>sent := sent c @ [(name, req)]\<rparr>)"

section \<open>Python built-ins and \<open>urllib.parse.urlencode\<close>\<close>

text \<open>\<open>d[k] = v\<close>: an existing key keeps its place, a new key goes last.\<close>

fun dict_set :: "('k \<times> 'v) list \<Rightarrow> 'k \<Rightarrow> 'v \<Rightarrow> ('k \<times> 'v) list" where
  "dict_set [] k v = [(k, v)]"
| "dict_set ((k', v') # d) k v = (if k' = k then (k, v) # d else (k', v') # dict_set d k v)"

text \<open>\<open>sep.join(parts)\<close>.\<close>

fun join :: "string \<Rightarrow> string list \<Rightarrow> string" where
  "join sep [] = []"
| "join sep [x] = x"
| "join sep (x # y # ys) = x @ sep @ join sep (y # ys)"

text \<open>\<open>str(b)\<close> for a bool and \<open>s.lower()\<close> on ASCII text.\<close>

definition str_bool :: "bool \<Rightarrow> string" where
  "str_bool b = (if b then ''True'' else ''False'')"

definition lower_char :: "char \<Rightarrow> char" where
  "lower_char c =
     (case map_of (zip ''ABCDEFGHIJKLMNOPQRSTUVWXYZ'' ''abcdefghijklmnopqrstuvwxyz'') c of
        Some l \<Rightarrow> l
      | None \<Rightarrow> c)"

definition lower :: "string \<Rightarrow> string" where
  "lower s = map lower_char s"

text \<open>\<open>str(n)\<close> for an int: decimal digits, a minus sign for a negative number.\<close>

definition digit_char :: "nat \<Rightarrow> char" where
  "digit_char d = ''0123456789'' ! d"

function str_nat :: "nat \<Rightarrow> string" where
  "str_nat n = (if n < 10 then [digit_char n] else str_nat (n div 10) @ [digit_char (n mod 10)])"
  by pat_completeness auto
termination
  by (relation "measure (\<lambda>n. n)") auto

declare str_nat.simps [simp del]

definition str_int :: "int \<Rightarrow> string" where
  "str_int i = (if i < 0 then CHR ''-'' # str_nat (nat (- i)) else str_nat (nat i))"

text \<open>\<open>str(v)\<close> for a value of a params dict.\<close>

fun py_str :: "pyval \<Rightarrow> string" where
  "py_str PNone = ''None''"
| "py_str (PStr s) = s"
| "py_str (PBool b) = str_bool b"

text \<open>
  Modelled from the spec: \<open>urllib.parse.urlencode\<close> belongs to Python's standard library,
  not to the repository. The spec asks for "standard form-encoding rules: space to \<open>+\<close>,
  reserved characters percent-escaped"; the library's \<open>quote_plus\<close> keeps ASCII letters,
  digits and \<open>_.-~\<close>, writes a space as \<open>+\<close> and every other byte as \<open>%XX\<close> in upper-case
  hexadecimal, and \<open>urlencode\<close> joins \<open>quote_plus(k) + '=' + quote_plus(str(v))\<close> of the
  entries with \<open>&\<close>.
\<close>

definition always_safe :: "char \<Rightarrow> bool" where
  "always_safe c \<longleftrightarrow>
     c \<in> set ''ABCDEFGHIJKLMNOPQRSTUVWXYZabcdefghijklmnopqrstuvwxyz0123456789_.-~''"

definition hex_digit :: "nat \<Rightarrow> char" where
  "hex_digit d = ''0123456789ABCDEF'' ! d"

definition quote_char :: "char \<Rightarrow> string" where
  "quote_char c =
     (if c = CHR '' '' then ''+''
      else if always_safe c then [c]
      else [CHR ''%'', hex_digit ((of_char c :: nat) div 16), hex_digit ((of_char c :: nat) mod 16)])"

definition quote_plus :: "string \<Rightarrow> string" where
  "quote_plus s = concat (map quote_char s)"

definition encode_pair :: "string \<times> pyval \<Rightarrow> string" where
  "encode_pair kv = quote_plus (fst kv) @ ''='' @ quote_plus (py_str (snd kv))"

definition urlencode :: "params \<Rightarrow> string" where
  "urlencode query = join ''&'' (map encode_pair query)"

section \<open>The request adapter\<close>

text \<open>
  \<open>_request\<close> (an Isabelle name cannot start with an underscore). \<open>if params:\<close> is false
  for \<open>None\<close> and for the empty dict; the dict comprehension keeps the entries whose value
  is not \<open>None\<close>, in order.
\<close>

definition request ::
  "ctx \<Rightarrow> HttpMethod \<Rightarrow> string \<Rightarrow> params option \<Rightarrow> py_dict option
     \<Rightarrow> (py_error + GCalResult) \<times> ctx" where
  "request c meth pth params body =
     (let pth =
            (case params of
               None \<Rightarrow> pth
             | Some ps \<Rightarrow>
                 if ps = [] then pth
                 else (let query_string = urlencode (filter (\<lambda>kv. snd kv \<noteq> PNone) ps)
                       in if query_string \<noteq> [] then pth @ ''?'' @ query_string else pth));
          req = \<lparr>req_method = meth, req_path = pth, req_body = body\<rparr>;
          (response, c') = dispatch c ''gcal-mcp'' req
      in if disp_success response then
           (case disp_response response of
              None \<Rightarrow> (Inl AttributeError, c')
            | Some r \<Rightarrow> (Inr \<lparr>success = True, data = resp_body r, error = None\<rparr>, c'))
         else
           (let msg = (case disp_error response of
                         Some e \<Rightarrow> message e
                       | None \<Rightarrow> ''Request failed'')
            in (Inr \<lparr>success = False, data = JNull, error = Some msg\<rparr>, c')))"

section \<open>The tools\<close>

text \<open>
  Each tool reads the context (\<open>get_context()\<close> inside \<open>request\<close>) and makes one call of
  \<open>request\<close>. Default arguments are passed explicitly. \<open>if x is not None:\<close> on an
  optional argument is a \<open>case\<close>; \<open>if x:\<close> on an optional string is also false for the
  empty string.
\<close>

definition gcal_list_calendars :: "ctx \<Rightarrow> (py_error + GCalResult) \<times> ctx" where
  "gcal_list_calendars c =
     request c GET ''/users/me/calendarList'' (Some [(''minAccessRole'', PStr ''reader'')]) None"

definition gcal_get_calendar :: "ctx \<Rightarrow> string \<Rightarrow> (py_error + GCalResult) \<times> ctx" where
  "gcal_get_calendar c calendar_id = request c GET (''/calendars/'' @ calendar_id) None None"

definition gcal_create_calendar ::
  "ctx \<Rightarrow> string \<Rightarrow> string option \<Rightarrow> string option \<Rightarrow> string option
     \<Rightarrow> (py_error + GCalResult) \<times> ctx" where
  "gcal_create_calendar c summary description time_zone location =
     (let body = [(''summary'', JStr summary)];
          body = (case description of None \<Rightarrow> body
                  | Some d \<Rightarrow> dict_set body ''description'' (JStr d));
          body = (case time_zone of None \<Rightarrow> body
                  | Some t \<Rightarrow> dict_set body ''timeZone'' (JStr t));
          body = (case location of None \<Rightarrow> body
                  | Some l \<Rightarrow> dict_set body ''location'' (JStr l))
      in request c POST ''/calendars'' None (Some body))"

definition gcal_delete_calendar :: "ctx \<Rightarrow> string \<Rightarrow> (py_error + GCalResult) \<times> ctx" where
  "gcal_delete_calendar c calendar_id = request c DELETE (''/calendars/'' @ calendar_id) None None"

definition gcal_clear_calendar :: "ctx \<Rightarrow> string \<Rightarrow> (py_error + GCalResult) \<times> ctx" where
  "gcal_clear_calendar c calendar_id =
     request c POST (''/calendars/'' @ calendar_id @ ''/clear'') None None"

definition gcal_patch_calendar ::
  "ctx \<Rightarrow> string \<Rightarrow> py_dict \<Rightarrow> (py_error + GCalResult) \<times> ctx" where
  "gcal_patch_calendar c calendar_id patch =
     request c PATCH (''/calendars/'' @ calendar_id) None (Some patch)"

definition gcal_update_calendar ::
  "ctx \<Rightarrow> string \<Rightarrow> py_dict \<Rightarrow> (py_error + GCalResult) \<times> ctx" where
  "gcal_update_calendar c calendar_id calendar =
     request c PUT (''/calendars/'' @ calendar_id) None (Some calendar)"

definition gcal_calendarlist_get :: "ctx \<Rightarrow> string \<Rightarrow> (py_error + GCalResult) \<times> ctx" where
  "gcal_calendarlist_get c calendar_id =
     request c GET (''/users/me/calendarList/'' @ calendar_id) None None"

definition gcal_calendarlist_insert :: "ctx \<Rightarrow> py_dict \<Rightarrow> (py_error + GCalResult) \<times> ctx" where
  "gcal_calendarlist_insert c entry = request c POST ''/users/me/calendarList'' None (Some entry)"

definition gcal_calendarlist_delete :: "ctx \<Rightarrow> string \<Rightarrow> (py_error + GCalResult) \<times> ctx" where
  "gcal_calendarlist_delete c calendar_id =
     request c DELETE (''/users/me/calendarList/'' @ calendar_id) None None"

definition gcal_calendarlist_patch ::
  "ctx \<Rightarrow> string \<Rightarrow> py_dict \<Rightarrow> (py_error + GCalResult) \<times> ctx" where
  "gcal_calendarlist_patch c calendar_id patch =
     request c PATCH (''/users/me/calendarList/'' @ calendar_id) None (Some patch)"

definition gcal_calendarlist_update ::
  "ctx \<Rightarrow> string \<Rightarrow> py_dict \<Rightarrow> (py_error + GCalResult) \<times> ctx" where
  "gcal_calendarlist_update c calendar_id entry =
     request c PUT (''/users/me/calendarList/'' @ calendar_id) None (Some entry)"

definition gcal_create_event ::
  "ctx \<Rightarrow> string \<Rightarrow> py_dict \<Rightarrow> string option \<Rightarrow> bool option
     \<Rightarrow> (py_error + GCalResult) \<times> ctx" where
  "gcal_create_event c calendar_id event send_updates supports_attachments =
     (let params = [];
          params = (case send_updates of None \<Rightarrow> params
                    | Some s \<Rightarrow> dict_set params ''sendUpdates'' (PStr s));
          params = (case supports_attachments of None \<Rightarrow> params
                    | Some b \<Rightarrow> dict_set params ''supportsAttachments'' (PStr (lower (str_bool b))))
      in request c POST (''/calendars/'' @ calendar_id @ ''/events'') (Some params) (Some event))"

definition gcal_delete_event ::
  "ctx \<Rightarrow> string \<Rightarrow> string \<Rightarrow> string option \<Rightarrow> (py_error + GCalResult) \<times> ctx" where
  "gcal_delete_event c calendar_id event_id send_updates =
     (let params = [];
          params = (case send_updates of None \<Rightarrow> params
                    | Some s \<Rightarrow> dict_set params ''sendUpdates'' (PStr s))
      in request c DELETE (''/calendars/'' @ calendar_id @ ''/events/'' @ event_id)
           (Some params) None)"

definition gcal_patch_event ::
  "ctx \<Rightarrow> string \<Rightarrow> string \<Rightarrow> py_dict \<Rightarrow> string option
     \<Rightarrow> (py_error + GCalResult) \<times> ctx" where
  "gcal_patch_event c calendar_id event_id patch send_updates =
     (let params = [];
          params = (case send_updates of None \<Rightarrow> params
                    | Some s \<Rightarrow> dict_set params ''sendUpdates'' (PStr s))
      in request c PATCH (''/calendars/'' @ calendar_id @ ''/events/'' @ event_id)
           (Some params) (Some patch))"

definition gcal_update_event ::
  "ctx \<Rightarrow> string \<Rightarrow> string \<Rightarrow> py_dict \<Rightarrow> string option
     \<Rightarrow> (py_error + GCalResult) \<times> ctx" where
  "gcal_update_event c calendar_id event_id event send_updates =
     (let params = [];
          params = (case send_updates of None \<Rightarrow> params
                    | Some s \<Rightarrow> dict_set params ''sendUpdates'' (PStr s))
      in request c PUT (''/calendars/'' @ calendar_id @ ''/events/'' @ event_id)
           (Some params) (Some event))"

definition gcal_quick_add_event ::
  "ctx \<Rightarrow> string \<Rightarrow> string \<Rightarrow> string option \<Rightarrow> (py_error + GCalResult) \<times> ctx" where
  "gcal_quick_add_event c calendar_id txt send_updates =
     (let params = [(''text'', PStr txt)];
          params = (case send_updates of None \<Rightarrow> params
                    | Some s \<Rightarrow> dict_set params ''sendUpdates'' (PStr s))
      in request c POST (''/calendars/'' @ calendar_id @ ''/events/quickAdd'') (Some params) None)"

definition gcal_move_event ::
  "ctx \<Rightarrow> string \<Rightarrow> string \<Rightarrow> string \<Rightarrow> string option
     \<Rightarrow> (py_error + GCalResult) \<times> ctx" where
  "gcal_move_event c source_calendar_id event_id destination_calendar_id send_updates =
     (let params = [(''destination'', PStr destination_calendar_id)];
          params = (case send_updates of None \<Rightarrow> params
                    | Some s \<Rightarrow> dict_set params ''sendUpdates'' (PStr s))
      in request c POST
           (''/calendars/'' @ source_calendar_id @ ''/events/'' @ event_id @ ''/move'')
           (Some params) None)"

definition gcal_import_event ::
  "ctx \<Rightarrow> string \<Rightarrow> py_dict \<Rightarrow> bool option \<Rightarrow> (py_error + GCalResult) \<times> ctx" where
  "gcal_import_event c calendar_id event supports_attachments =
     (let params = [];
          params = (case supports_attachments of None \<Rightarrow> params
                    | Some b \<Rightarrow> dict_set params ''supportsAttachments'' (PStr (lower (str_bool b))))
      in request c POST (''/calendars/'' @ calendar_id @ ''/events/import'')
           (Some params) (Some event))"

definition gcal_channels_stop :: "ctx \<Rightarrow> py_dict \<Rightarrow> (py_error + GCalResult) \<times> ctx" where
  "gcal_channels_stop c channel = request c POST ''/channels/stop'' None (Some channel)"

definition gcal_events_watch ::
  "ctx \<Rightarrow> string \<Rightarrow> py_dict \<Rightarrow> string option \<Rightarrow> string option \<Rightarrow> bool option
     \<Rightarrow> (py_error + GCalResult) \<times> ctx" where
  "gcal_events_watch c calendar_id channel time_min time_max single_events =
     (let params = [];
          params = (case time_min of None \<Rightarrow> params
                    | Some t \<Rightarrow> dict_set params ''timeMin'' (PStr t));
          params = (case time_max of None \<Rightarrow> params
                    | Some t \<Rightarrow> dict_set params ''timeMax'' (PStr t));
          params = (case single_events of None \<Rightarrow> params
                    | Some b \<Rightarrow> dict_set params ''singleEvents'' (PStr (lower (str_bool b))))
      in request c POST (''/calendars/'' @ calendar_id @ ''/events/watch'')
           (Some params) (Some channel))"

definition gcal_calendarlist_watch :: "ctx \<Rightarrow> py_dict \<Rightarrow> (py_error + GCalResult) \<times> ctx" where
  "gcal_calendarlist_watch c channel =
     request c POST ''/users/me/calendarList/watch'' None (Some channel)"

definition gcal_settings_watch :: "ctx \<Rightarrow> py_dict \<Rightarrow> (py_error + GCalResult) \<times> ctx" where
  "gcal_settings_watch c channel =
     request c POST ''/users/me/settings/watch'' None (Some channel)"

definition gcal_list_events ::
  "ctx \<Rightarrow> string \<Rightarrow> string option \<Rightarrow> string option \<Rightarrow> int \<Rightarrow> bool \<Rightarrow> string
     \<Rightarrow> (py_error + GCalResult) \<times> ctx" where
  "gcal_list_events c calendar_id time_min time_max max_results single_events order_by =
     (let max_results = max 1 (min 2500 max_results);
          params = [(''maxResults'', PStr (str_int max_results)),
                    (''singleEvents'', PStr (lower (str_bool single_events)))];
          params = (case time_min of None \<Rightarrow> params
                    | Some t \<Rightarrow> if t \<noteq> [] then dict_set params ''timeMin'' (PStr t) else params);
          params = (case time_max of None \<Rightarrow> params
                    | Some t \<Rightarrow> if t \<noteq> [] then dict_set params ''timeMax'' (PStr t) else params);
          params = (if single_events then dict_set params ''orderBy'' (PStr order_by) else params)
      in request c GET (''/calendars/'' @ calendar_id @ ''/events'') (Some params) None)"

definition gcal_get_event :: "ctx \<Rightarrow> string \<Rightarrow> string \<Rightarrow> (py_error + GCalResult) \<times> ctx" where
  "gcal_get_event c calendar_id event_id =
     request c GET (''/calendars/'' @ calendar_id @ ''/events/'' @ event_id) None None"

definition gcal_search_events ::
  "ctx \<Rightarrow> string \<Rightarrow> string \<Rightarrow> string option \<Rightarrow> string option \<Rightarrow> int
     \<Rightarrow> (py_error + GCalResult) \<times> ctx" where
  "gcal_search_events c query calendar_id time_min time_max max_results =
     (let max_results = max 1 (min 2500 max_results);
          params = [(''q'', PStr query),
                    (''maxResults'', PStr (str_int max_results)),
                    (''singleEvents'', PStr ''true''),
                    (''orderBy'', PStr ''startTime'')];
          params = (case time_min of None \<Rightarrow> params
                    | Some t \<Rightarrow> if t \<noteq> [] then dict_set params ''timeMin'' (PStr t) else params);
          params = (case time_max of None \<Rightarrow> params
                    | Some t \<Rightarrow> if t \<noteq> [] then dict_set params ''timeMax'' (PStr t) else params)
      in request c GET (''/calendars/'' @ calendar_id @ ''/events'') (Some params) None)"

definition gcal_get_event_instances ::
  "ctx \<Rightarrow> string \<Rightarrow> string \<Rightarrow> string option \<Rightarrow> string option \<Rightarrow> int
     \<Rightarrow> (py_error + GCalResult) \<times> ctx" where
  "gcal_get_event_instances c calendar_id event_id time_min time_max max_results =
     (let max_results = max 1 (min 2500 max_results);
          params = [(''maxResults'', PStr (str_int max_results))];
          params = (case time_min of None \<Rightarrow> params
                    | Some t \<Rightarrow> if t \<noteq> [] then dict_set params ''timeMin'' (PStr t) else params);
          params = (case time_max of None \<Rightarrow> params
                    | Some t \<Rightarrow> if t \<noteq> [] then dict_set params ''timeMax'' (PStr t) else params)
      in request c GET (''/calendars/'' @ calendar_id @ ''/events/'' @ event_id @ ''/instances'')
           (Some params) None)"

definition gcal_get_freebusy ::
  "ctx \<Rightarrow> string \<Rightarrow> string \<Rightarrow> string list option \<Rightarrow> string option
     \<Rightarrow> (py_error + GCalResult) \<times> ctx" where
  "gcal_get_freebusy c time_min time_max calendar_ids time_zone =
     (let calendar_ids = (case calendar_ids of None \<Rightarrow> [''primary''] | Some ids \<Rightarrow> ids);
          body = [(''timeMin'', JStr time_min),
                  (''timeMax'', JStr time_max),
                  (''items'', JList (map (\<lambda>cal_id. JObj [(''id'', JStr cal_id)]) calendar_ids))];
          body = (case time_zone of None \<Rightarrow> body
                  | Some t \<Rightarrow> if t \<noteq> [] then dict_set body ''timeZone'' (JStr t) else body)
      in request c POST ''/freeBusy'' None (Some body))"

definition gcal_get_settings :: "ctx \<Rightarrow> (py_error + GCalResult) \<times> ctx" where
  "gcal_get_settings c = request c GET ''/users/me/settings'' None None"

definition gcal_get_setting :: "ctx \<Rightarrow> string \<Rightarrow> (py_error + GCalResult) \<times> ctx" where
  "gcal_get_setting c setting_id = request c GET (''/users/me/settings/'' @ setting_id) None None"

definition gcal_get_colors :: "ctx \<Rightarrow> (py_error + GCalResult) \<times> ctx" where
  "gcal_get_colors c = request c GET ''/colors'' None None"

text \<open>\<open>gcal_tools\<close>: a call of one of the registered tools with its arguments.\<close>

datatype tool_call =
    ListCalendars
  | GetCalendar string
  | CreateCalendar string "string option" "string option" "string option"
  | DeleteCalendar string
  | ClearCalendar string
  | PatchCalendar string py_dict
  | UpdateCalendar string py_dict
  | CalendarlistGet string
  | CalendarlistInsert py_dict
  | CalendarlistDelete string
  | CalendarlistPatch string py_dict
  | CalendarlistUpdate string py_dict
  | ListEvents string "string option" "string option" int bool string
  | GetEvent string string
  | SearchEvents string string "string option" "string option" int
  | GetEventInstances string string "string option" "string option" int
  | CreateEvent string py_dict "string option" "bool option"
  | DeleteEvent string string "string option"
  | PatchEvent string string py_dict "string option"
  | UpdateEvent string string py_dict "string option"
  | QuickAddEvent string string "string option"
  | MoveEvent string string string "string option"
  | ImportEvent string py_dict "bool option"
  | GetFreebusy string string "string list option" "string option"
  | GetSettings
  | GetSetting string
  | SettingsWatch py_dict
  | GetColors
  | ChannelsStop py_dict
  | EventsWatch string py_dict "string option" "string option" "bool option"
  | CalendarlistWatch py_dict

fun run_tool :: "ctx \<Rightarrow> tool_call \<Rightarrow> (py_error + GCalResult) \<times> ctx" where
  "run_tool c ListCalendars = gcal_list_calendars c"
| "run_tool c (GetCalendar i) = gcal_get_calendar c i"
| "run_tool c (CreateCalendar s d t l) = gcal_create_calendar c s d t l"
| "run_tool c (DeleteCalendar i) = gcal_delete_calendar c i"
| "run_tool c (ClearCalendar i) = gcal_clear_calendar c i"
| "run_tool c (PatchCalendar i p) = gcal_patch_calendar c i p"
| "run_tool c (UpdateCalendar i p) = gcal_update_calendar c i p"
| "run_tool c (CalendarlistGet i) = gcal_calendarlist_get c i"
| "run_tool c (CalendarlistInsert e) = gcal_calendarlist_insert c e"
| "run_tool c (CalendarlistDelete i) = gcal_calendarlist_delete c i"
| "run_tool c (CalendarlistPatch i p) = gcal_calendarlist_patch c i p"
| "run_tool c (CalendarlistUpdate i e) = gcal_calendarlist_update c i e"
| "run_tool c (ListEvents i tmin tmax n se ob) = gcal_list_events c i tmin tmax n se ob"
| "run_tool c (GetEvent i e) = gcal_get_event c i e"
| "run_tool c (SearchEvents q i tmin tmax n) = gcal_search_events c q i tmin tmax n"
| "run_tool c (GetEventInstances i e tmin tmax n) = gcal_get_event_instances c i e tmin tmax n"
| "run_tool c (CreateEvent i ev su sa) = gcal_create_event c i ev su sa"
| "run_tool c (DeleteEvent i e su) = gcal_delete_event c i e su"
| "run_tool c (PatchEvent i e p su) = gcal_patch_event c i e p su"
| "run_tool c (UpdateEvent i e ev su) = gcal_update_event c i e ev su"
| "run_tool c (QuickAddEvent i t su) = gcal_quick_add_event c i t su"
| "run_tool c (MoveEvent i e d su) = gcal_move_event c i e d su"
| "run_tool c (ImportEvent i ev sa) = gcal_import_event c i ev sa"
| "run_tool c (GetFreebusy tmin tmax ids tz) = gcal_get_freebusy c tmin tmax ids tz"
| "run_tool c GetSettings = gcal_get_settings c"
| "run_tool c (GetSetting i) = gcal_get_setting c i"
| "run_tool c (SettingsWatch ch) = gcal_settings_watch c ch"
| "run_tool c GetColors = gcal_get_colors c"
| "run_tool c (ChannelsStop ch) = gcal_channels_stop c ch"
| "run_tool c (EventsWatch i ch tmin tmax se) = gcal_events_watch c i ch tmin tmax se"
| "run_tool c (CalendarlistWatch ch) = gcal_calendarlist_watch c ch"

section \<open>Reading a request back\<close>

text \<open>
  What a server reads from a query string, used to state what a request carries:
  \<open>split_on\<close> is \<open>s.split(sep)\<close>, \<open>unquote_plus\<close> undoes \<open>quote_plus\<close> (a \<open>%\<close> that
  two hexadecimal digits do not follow stays as it is), and
  \<open>qs_params\<close> is the list of decoded (key, value) pairs of a query string, in order.
\<close>

fun split_on :: "char \<Rightarrow> string \<Rightarrow> string list" where
  "split_on sep [] = [[]]"
| "split_on sep (x # xs) =
     (if x = sep then [] # split_on sep xs
      else (case split_on sep xs of [] \<Rightarrow> [[x]] | w # ws \<Rightarrow> (x # w) # ws))"

definition qs_segments :: "string \<Rightarrow> string list" where
  "qs_segments qs = (if qs = [] then [] else split_on CHR ''&'' qs)"

definition is_hex :: "char \<Rightarrow> bool" where
  "is_hex c \<longleftrightarrow> c \<in> set ''0123456789ABCDEFabcdef''"

definition unhex :: "char \<Rightarrow> nat" where
  "unhex c =
     (let i = length (takeWhile (\<lambda>x. x \<noteq> c) ''0123456789ABCDEF'')
      in if i < 16 then i else length (takeWhile (\<lambda>x. x \<noteq> c) ''0123456789abcdef''))"

fun unquote_plus :: "string \<Rightarrow> string" where
  "unquote_plus [] = []"
| "unquote_plus (c # cs) =
     (if c = CHR ''+'' then CHR '' '' # unquote_plus cs
      else if c = CHR ''%'' then
        (case cs of
           h # l # rest \<Rightarrow>
             if is_hex h \<and> is_hex l then char_of (16 * unhex h + unhex l) # unquote_plus rest
             else c # unquote_plus cs
         | _ \<Rightarrow> c # unquote_plus cs)
      else c # unquote_plus cs)"

definition qs_params :: "string \<Rightarrow> (string \<times> string) list" where
  "qs_params qs =
     map (\<lambda>seg. (unquote_plus (takeWhile (\<lambda>x. x \<noteq> CHR ''='') seg),
                 unquote_plus (drop 1 (dropWhile (\<lambda>x. x \<noteq> CHR ''='') seg))))
       (qs_segments qs)"


text \<open>Dispatch capabilities and contexts for concrete calls: one that answers every request
  with a body, one that answers with the connection name and the path it was given, one that
  fails with a message, one that fails with no error object, one that fails with an error
  object whose message is empty, and one that reports success with no response object.\<close>

definition ok_handler :: "string \<Rightarrow> HttpRequest \<Rightarrow> DispatchResponse" where
  "ok_handler name req =
     \<lparr>disp_success = True,
      disp_response = Some \<lparr>resp_body = JObj [(''kind'', JStr ''calendar#events'')]\<rparr>,
      disp_error = None\<rparr>"

definition not_found_handler :: "string \<Rightarrow> HttpRequest \<Rightarrow> DispatchResponse" where
  "not_found_handler name req =
     \<lparr>disp_success = False, disp_response = None,
      disp_error = Some \<lparr>message = ''Not Found''\<rparr>\<rparr>"


definition empty_message_handler :: "string \<Rightarrow> HttpRequest \<Rightarrow> DispatchResponse" where
  "empty_message_handler name req =
     \<lparr>disp_success = False, disp_response = None, disp_error = Some \<lparr>message = []\<rparr>\<rparr>"

definition no_response_handler :: "string \<Rightarrow> HttpRequest \<Rightarrow> DispatchResponse" where
  "no_response_handler name req =
     \<lparr>disp_success = True, disp_response = None, disp_error = None\<rparr>"

definition echo_handler :: "string \<Rightarrow> HttpRequest \<Rightarrow> DispatchResponse" where
  "echo_handler name req =
     \<lparr>disp_success = True,
      disp_response = Some \<lparr>resp_body = JObj [(''connection'', JStr name),
                                                (''path'', JStr (req_path req))]\<rparr>,
      disp_error = None\<rparr>"

definition echo_ctx :: ctx where
  "echo_ctx = \<lparr>handler = echo_handler, sent = []\<rparr>"

definition ok_ctx :: ctx where
  "ok_ctx = \<lparr>handler = ok_handler, sent = []\<rparr>"

definition not_found_ctx :: ctx where
  "not_found_ctx = \<lparr>handler = not_found_handler, sent = []\<rparr>"



text \<open>The two halves of \<open>request\<close>: the path it dispatches and the result it builds
  from the response. \<open>request_eq\<close> below proves that \<open>request\<close> is their composition.\<close>

definition final_path :: "string \<Rightarrow> params option \<Rightarrow> string" where
  "final_path p params =
     (case params of
        None \<Rightarrow> p
      | Some ps \<Rightarrow>
          if filter (\<lambda>kv. snd kv \<noteq> PNone) ps = [] then p
          else p @ ''?'' @ urlencode (filter (\<lambda>kv. snd kv \<noteq> PNone) ps))"

definition to_result :: "DispatchResponse \<Rightarrow> py_error + GCalResult" where
  "to_result response =
     (if disp_success response then
        (case disp_response response of
           None \<Rightarrow> Inl AttributeError
         | Some r \<Rightarrow> Inr \<lparr>success = True, data = resp_body r, error = None\<rparr>)
      else Inr \<lparr>success = False, data = JNull,
                error = Some (case disp_error response of
                                Some e \<Rightarrow> message e
                              | None \<Rightarrow> ''Request failed'')\<rparr>)"


text \<open>The decoded parameters an optional argument contributes: \<open>some_param\<close> for
  \<open>if x is not None\<close>, \<open>opt_param\<close> for \<open>if x\<close> on a string, \<open>flag_param\<close> for an optional
  boolean flag.\<close>

definition some_param :: "string \<Rightarrow> string option \<Rightarrow> (string \<times> string) list" where
  "some_param k v = (case v of None \<Rightarrow> [] | Some t \<Rightarrow> [(k, t)])"

definition opt_param :: "string \<Rightarrow> string option \<Rightarrow> (string \<times> string) list" where
  "opt_param k v = (case v of None \<Rightarrow> [] | Some t \<Rightarrow> if t \<noteq> [] then [(k, t)] else [])"

definition flag_param :: "string \<Rightarrow> bool option \<Rightarrow> (string \<times> string) list" where
  "flag_param k v = (case v of None \<Rightarrow> [] | Some b \<Rightarrow> [(k, if b then ''true'' else ''false'')])"

text \<open>The claim's clamp: a value below 1 becomes 1, a value above 2500 becomes 2500.\<close>

definition clamped :: "int \<Rightarrow> int" where
  "clamped n = (if n < 1 then 1 else if 2500 < n then 2500 else n)"

text \<open>The body fields an optional string argument contributes, as for the parameters.\<close>

definition some_field :: "string \<Rightarrow> string option \<Rightarrow> py_dict" where
  "some_field k v = (case v of None \<Rightarrow> [] | Some t \<Rightarrow> [(k, JStr t)])"

definition opt_field :: "string \<Rightarrow> string option \<Rightarrow> py_dict" where
  "opt_field k v = (case v of None \<Rightarrow> [] | Some t \<Rightarrow> if t \<noteq> [] then [(k, JStr t)] else [])"

text \<open>
  The wire format of every tool, as a table: method, path before the query string,
  decoded query parameters in order, and body. \<open>run_tool_wire\<close> below proves that this is
  what \<open>run_tool\<close> dispatches.
\<close>

fun wire :: "tool_call \<Rightarrow> HttpMethod \<times> string \<times> (string \<times> string) list \<times> py_dict option" where
  "wire ListCalendars =
     (GET, ''/users/me/calendarList'', [(''minAccessRole'', ''reader'')], None)"
| "wire (GetCalendar i) = (GET, ''/calendars/'' @ i, [], None)"
| "wire (CreateCalendar s d t l) =
     (POST, ''/calendars'', [],
      Some ([(''summary'', JStr s)] @ some_field ''description'' d
            @ some_field ''timeZone'' t @ some_field ''location'' l))"
| "wire (DeleteCalendar i) = (DELETE, ''/calendars/'' @ i, [], None)"
| "wire (ClearCalendar i) = (POST, ''/calendars/'' @ i @ ''/clear'', [], None)"
| "wire (PatchCalendar i p) = (PATCH, ''/calendars/'' @ i, [], Some p)"
| "wire (UpdateCalendar i p) = (PUT, ''/calendars/'' @ i, [], Some p)"
| "wire (CalendarlistGet i) = (GET, ''/users/me/calendarList/'' @ i, [], None)"
| "wire (CalendarlistInsert e) = (POST, ''/users/me/calendarList'', [], Some e)"
| "wire (CalendarlistDelete i) = (DELETE, ''/users/me/calendarList/'' @ i, [], None)"
| "wire (CalendarlistPatch i p) = (PATCH, ''/users/me/calendarList/'' @ i, [], Some p)"
| "wire (CalendarlistUpdate i e) = (PUT, ''/users/me/calendarList/'' @ i, [], Some e)"
| "wire (ListEvents i tmin tmax n se ob) =
     (GET, ''/calendars/'' @ i @ ''/events'',
      [(''maxResults'', str_int (max 1 (min 2500 n))),
       (''singleEvents'', if se then ''true'' else ''false'')]
      @ opt_param ''timeMin'' tmin @ opt_param ''timeMax'' tmax
      @ (if se then [(''orderBy'', ob)] else []),
      None)"
| "wire (GetEvent i e) = (GET, ''/calendars/'' @ i @ ''/events/'' @ e, [], None)"
| "wire (SearchEvents q i tmin tmax n) =
     (GET, ''/calendars/'' @ i @ ''/events'',
      [(''q'', q), (''maxResults'', str_int (max 1 (min 2500 n))),
       (''singleEvents'', ''true''), (''orderBy'', ''startTime'')]
      @ opt_param ''timeMin'' tmin @ opt_param ''timeMax'' tmax,
      None)"
| "wire (GetEventInstances i e tmin tmax n) =
     (GET, ''/calendars/'' @ i @ ''/events/'' @ e @ ''/instances'',
      [(''maxResults'', str_int (max 1 (min 2500 n)))]
      @ opt_param ''timeMin'' tmin @ opt_param ''timeMax'' tmax,
      None)"
| "wire (CreateEvent i ev su sa) =
     (POST, ''/calendars/'' @ i @ ''/events'',
      some_param ''sendUpdates'' su @ flag_param ''supportsAttachments'' sa, Some ev)"
| "wire (DeleteEvent i e su) =
     (DELETE, ''/calendars/'' @ i @ ''/events/'' @ e, some_param ''sendUpdates'' su, None)"
| "wire (PatchEvent i e p su) =
     (PATCH, ''/calendars/'' @ i @ ''/events/'' @ e, some_param ''sendUpdates'' su, Some p)"
| "wire (UpdateEvent i e ev su) =
     (PUT, ''/calendars/'' @ i @ ''/events/'' @ e, some_param ''sendUpdates'' su, Some ev)"
| "wire (QuickAddEvent i t su) =
     (POST, ''/calendars/'' @ i @ ''/events/quickAdd'',
      [(''text'', t)] @ some_param ''sendUpdates'' su, None)"
| "wire (MoveEvent i e d su) =
     (POST, ''/calendars/'' @ i @ ''/events/'' @ e @ ''/move'',
      [(''destination'', d)] @ some_param ''sendUpdates'' su, None)"
| "wire (ImportEvent i ev sa) =
     (POST, ''/calendars/'' @ i @ ''/events/import'',
      flag_param ''supportsAttachments'' sa, Some ev)"
| "wire (GetFreebusy tmin tmax ids tz) =
     (POST, ''/freeBusy'', [],
      Some ([(''timeMin'', JStr tmin), (''timeMax'', JStr tmax),
             (''items'', JList (map (\<lambda>cal_id. JObj [(''id'', JStr cal_id)])
                (case ids of None \<Rightarrow> [''primary''] | Some l \<Rightarrow> l)))]
            @ opt_field ''timeZone'' tz))"
| "wire GetSettings = (GET, ''/users/me/settings'', [], None)"
| "wire (GetSetting i) = (GET, ''/users/me/settings/'' @ i, [], None)"
| "wire (SettingsWatch ch) = (POST, ''/users/me/settings/watch'', [], Some ch)"
| "wire GetColors = (GET, ''/colors'', [], None)"
| "wire (ChannelsStop ch) = (POST, ''/channels/stop'', [], Some ch)"
| "wire (EventsWatch i ch tmin tmax se) =
     (POST, ''/calendars/'' @ i @ ''/events/watch'',
      some_param ''timeMin'' tmin @ some_param ''timeMax'' tmax @ flag_param ''singleEvents'' se,
      Some ch)"
| "wire (CalendarlistWatch ch) = (POST, ''/users/me/calendarList/watch'', [], Some ch)"

definition tool_method :: "tool_call \<Rightarrow> HttpMethod" where
  "tool_method t = fst (wire t)"

definition tool_path :: "tool_call \<Rightarrow> string" where
  "tool_path t = fst (snd (wire t))"

definition tool_query :: "tool_call \<Rightarrow> (string \<times> string) list" where
  "tool_query t = fst (snd (snd (wire t)))"

definition tool_body :: "tool_call \<Rightarrow> py_dict option" where
  "tool_body t = snd (snd (snd (wire t)))"

text \<open>The invariant of a result, in the words of the spec: a success carries no error, a
  failure carries no data and an error string.\<close>

definition result_invariant :: "GCalResult \<Rightarrow> bool" where
  "result_invariant r \<longleftrightarrow>
     (success r \<longrightarrow> error r = None) \<and> (\<not> success r \<longrightarrow> data r = JNull \<and> error r \<noteq> None)"

text \<open>
  The keys an optional argument that is \<open>None\<close> would have had: in the query string
  (\<open>absent_query_keys\<close>) or in the body (\<open>absent_body_keys\<close>). \<open>calendar_ids\<close> of
  \<open>gcal_get_freebusy\<close> is not listed: \<open>None\<close> stands for the default \<open>["primary"]\<close> there.
\<close>

definition absent :: "string \<Rightarrow> 'a option \<Rightarrow> string list" where
  "absent k v = (if v = None then [k] else [])"

definition absent_query_keys :: "tool_call \<Rightarrow> string list" where
  "absent_query_keys t =
     (case t of
        ListEvents i tmin tmax n se ob \<Rightarrow> absent ''timeMin'' tmin @ absent ''timeMax'' tmax
      | SearchEvents q i tmin tmax n \<Rightarrow> absent ''timeMin'' tmin @ absent ''timeMax'' tmax
      | GetEventInstances i e tmin tmax n \<Rightarrow> absent ''timeMin'' tmin @ absent ''timeMax'' tmax
      | CreateEvent i ev su sa \<Rightarrow> absent ''sendUpdates'' su @ absent ''supportsAttachments'' sa
      | DeleteEvent i e su \<Rightarrow> absent ''sendUpdates'' su
      | PatchEvent i e p su \<Rightarrow> absent ''sendUpdates'' su
      | UpdateEvent i e ev su \<Rightarrow> absent ''sendUpdates'' su
      | QuickAddEvent i tx su \<Rightarrow> absent ''sendUpdates'' su
      | MoveEvent i e d su \<Rightarrow> absent ''sendUpdates'' su
      | ImportEvent i ev sa \<Rightarrow> absent ''supportsAttachments'' sa
      | EventsWatch i ch tmin tmax se \<Rightarrow>
          absent ''timeMin'' tmin @ absent ''timeMax'' tmax @ absent ''singleEvents'' se
      | _ \<Rightarrow> [])"

definition absent_body_keys :: "tool_call \<Rightarrow> string list" where
  "absent_body_keys t =
     (case t of
        CreateCalendar s d tz l \<Rightarrow>
          absent ''description'' d @ absent ''timeZone'' tz @ absent ''location'' l
      | GetFreebusy tmin tmax ids tz \<Rightarrow> absent ''timeZone'' tz
      | _ \<Rightarrow> [])"

definition body_keys :: "py_dict option \<Rightarrow> string set" where
  "body_keys b = (case b of None \<Rightarrow> {} | Some d \<Rightarrow> fst ` set d)"

section \<open>Auxiliary facts\<close>

lemma split_on_nonempty: "split_on sep s \<noteq> []"
  by (induction s) (auto split: list.splits)

lemma split_on_append:
  "sep \<notin> set w \<Longrightarrow> split_on sep (w @ sep # s) = w # split_on sep s"
  by (induction w) (auto split: list.splits)

lemma split_on_single: "sep \<notin> set w \<Longrightarrow> split_on sep w = [w]"
  by (induction w) (auto split: list.splits)

lemma split_on_join:
  "segs \<noteq> [] \<Longrightarrow> \<forall>w \<in> set segs. sep \<notin> set w \<Longrightarrow> split_on sep (join [sep] segs) = segs"
proof (induction segs)
  case Nil
  then show ?case by simp
next
  case (Cons x segs)
  show ?case
  proof (cases segs)
    case Nil
    with Cons.prems show ?thesis by (simp add: split_on_single)
  next
    case (Cons y ys)
    with Cons.IH Cons.prems show ?thesis
      using split_on_append[of sep x "join [sep] (y # ys)"] by simp
  qed
qed

lemma hex_digit_cases:
  "d < 16 \<Longrightarrow> hex_digit d \<in> set ''0123456789ABCDEF''"
  unfolding hex_digit_def by (rule nth_mem) simp

lemma hex_digit_not_sep:
  "d < 16 \<Longrightarrow> hex_digit d \<noteq> CHR ''&'' \<and> hex_digit d \<noteq> CHR ''=''"
  using hex_digit_cases[of d] by auto

lemma safe_not_special:
  "always_safe c \<Longrightarrow>
     c \<noteq> CHR ''&'' \<and> c \<noteq> CHR ''='' \<and> c \<noteq> CHR ''+'' \<and> c \<noteq> CHR ''%'' \<and> c \<noteq> CHR '' ''"
  by (auto simp: always_safe_def)

lemma unhex_hex_digit: "d < 16 \<Longrightarrow> unhex (hex_digit d) = d"
proof -
  have "\<forall>d \<in> set [0..<16]. unhex (hex_digit d) = d"
    by code_simp
  then show "d < 16 \<Longrightarrow> unhex (hex_digit d) = d" by simp
qed

lemma byte_div16: "of_char c div 16 < (16::nat)"
  using nat_of_char_less_256[of c] by (simp add: less_mult_imp_div_less)

lemma quote_char_chars:
  "x \<in> set (quote_char c) \<Longrightarrow> x \<noteq> CHR ''&'' \<and> x \<noteq> CHR ''=''"
  using hex_digit_not_sep[OF byte_div16[of c]] hex_digit_not_sep[of "of_char c mod 16"]
    safe_not_special[of c]
  by (auto simp: quote_char_def split: if_splits)

lemma quote_plus_chars:
  "x \<in> set (quote_plus s) \<Longrightarrow> x \<noteq> CHR ''&'' \<and> x \<noteq> CHR ''=''"
  by (auto simp: quote_plus_def dest: quote_char_chars)

lemma is_hex_hex_digit: "d < 16 \<Longrightarrow> is_hex (hex_digit d)"
  using hex_digit_cases[of d] by (auto simp: is_hex_def)

lemma unquote_quote_char:
  "unquote_plus (quote_char c @ rest) = c # unquote_plus rest"
proof -
  have byte: "char_of (16 * (of_char c div 16) + of_char c mod (16::nat)) = c"
    by simp
  have l: "unhex (hex_digit (of_char c mod 16)) = of_char c mod 16"
    by (rule unhex_hex_digit) simp
  have hl: "is_hex (hex_digit (of_char c mod 16))"
    by (rule is_hex_hex_digit) simp
  show ?thesis
    using byte safe_not_special[of c]
    by (auto simp: quote_char_def unhex_hex_digit[OF byte_div16] l hl
        is_hex_hex_digit[OF byte_div16])
qed

lemma unquote_quote_plus: "unquote_plus (quote_plus s) = s"
proof (induction s)
  case Nil
  then show ?case by (simp add: quote_plus_def)
next
  case (Cons c s)
  then show ?case
    using unquote_quote_char[of c "quote_plus s"] by (simp add: quote_plus_def)
qed

lemma encode_pair_no_amp: "CHR ''&'' \<notin> set (encode_pair kv)"
  using quote_plus_chars by (auto simp: encode_pair_def)

lemma encode_pair_nonempty: "encode_pair kv \<noteq> []"
  by (simp add: encode_pair_def)

lemma join_nonempty: "segs \<noteq> [] \<Longrightarrow> \<forall>w \<in> set segs. w \<noteq> [] \<Longrightarrow> join sep segs \<noteq> []"
  by (cases segs; cases "tl segs") auto

lemma urlencode_empty_iff: "urlencode q = [] \<longleftrightarrow> q = []"
proof
  show "urlencode q = [] \<Longrightarrow> q = []"
    using join_nonempty[of "map encode_pair q" "''&''"]
    by (auto simp: urlencode_def encode_pair_nonempty)
  show "q = [] \<Longrightarrow> urlencode q = []"
    by (simp add: urlencode_def)
qed

lemma qs_segments_urlencode: "qs_segments (urlencode q) = map encode_pair q"
proof (cases "q = []")
  case True
  then show ?thesis by (simp add: qs_segments_def urlencode_def)
next
  case False
  then have "split_on CHR ''&'' (join ''&'' (map encode_pair q)) = map encode_pair q"
    by (intro split_on_join) (auto simp: encode_pair_no_amp)
  with False show ?thesis
    by (simp add: qs_segments_def urlencode_empty_iff) (simp add: urlencode_def)
qed

lemma takeWhile_key:
  "takeWhile (\<lambda>x. x \<noteq> CHR ''='') (quote_plus k @ CHR ''='' # v) = quote_plus k"
  using quote_plus_chars[of _ k] by (subst takeWhile_append2) auto

lemma dropWhile_key:
  "dropWhile (\<lambda>x. x \<noteq> CHR ''='') (quote_plus k @ CHR ''='' # v) = CHR ''='' # v"
  using quote_plus_chars[of _ k] by (subst dropWhile_append2) auto

lemma qs_params_urlencode:
  "qs_params (urlencode q) = map (\<lambda>kv. (fst kv, py_str (snd kv))) q"
  by (simp add: qs_params_def qs_segments_urlencode encode_pair_def takeWhile_key dropWhile_key
      unquote_quote_plus)


lemma request_eq:
  "request c m p ps b =
     (to_result (handler c ''gcal-mcp'' \<lparr>req_method = m, req_path = final_path p ps, req_body = b\<rparr>),
      c\<lparr>sent := sent c @ [(''gcal-mcp'', \<lparr>req_method = m, req_path = final_path p ps, req_body = b\<rparr>)]\<rparr>)"
proof (cases ps)
  case None
  then show ?thesis
    by (simp add: request_def dispatch_def final_path_def to_result_def split: option.splits)
next
  case (Some q)
  show ?thesis
  proof (cases "q = []")
    case True
    with Some show ?thesis
      by (simp add: request_def dispatch_def final_path_def to_result_def split: option.splits)
  next
    case False
    with Some show ?thesis
      by (simp add: request_def dispatch_def final_path_def to_result_def Let_def
          urlencode_empty_iff split: option.splits)
  qed
qed



lemma qs_params_Nil: "qs_params [] = []"
  by (simp add: qs_params_def qs_segments_def)

lemma request_sent:
  "sent (snd (request c m p ps b)) =
     sent c @ [(''gcal-mcp'', \<lparr>req_method = m, req_path = final_path p ps, req_body = b\<rparr>)]"
  by (simp add: request_eq)


lemma lower_str_bool: "lower (str_bool b) = (if b then ''true'' else ''false'')"
  by (simp add: lower_def str_bool_def lower_char_def)

lemma request_sent_strings:
  assumes "filter (\<lambda>kv. snd kv \<noteq> PNone) ps = ps"
  shows "\<exists>qs. sent (snd (request c m p (Some ps) b)) =
            sent c @ [(''gcal-mcp'',
              \<lparr>req_method = m, req_path = p @ (if qs = [] then [] else ''?'' @ qs), req_body = b\<rparr>)]
          \<and> qs_params qs = map (\<lambda>kv. (fst kv, py_str (snd kv))) ps"
proof -
  have "sent (snd (request c m p (Some ps) b)) =
            sent c @ [(''gcal-mcp'',
              \<lparr>req_method = m,
               req_path = p @ (if urlencode ps = [] then [] else ''?'' @ urlencode ps),
               req_body = b\<rparr>)]"
    using assms by (simp add: request_sent final_path_def urlencode_empty_iff)
  then show ?thesis
    using qs_params_urlencode[of ps] by blast
qed

lemma tool_request:
  assumes "tool = request c m p (Some ps) b"
      and "filter (\<lambda>kv. snd kv \<noteq> PNone) ps = ps"
      and "map (\<lambda>kv. (fst kv, py_str (snd kv))) ps = decoded"
  shows "\<exists>qs. sent (snd tool) =
            sent c @ [(''gcal-mcp'',
              \<lparr>req_method = m, req_path = p @ (if qs = [] then [] else ''?'' @ qs), req_body = b\<rparr>)]
          \<and> qs_params qs = decoded"
  using request_sent_strings[OF assms(2), of c m p b] assms(1,3) by simp

lemma list_events_request:
  "\<exists>qs. sent (snd (gcal_list_events c cid tmin tmax n se ob)) =
          sent c @ [(''gcal-mcp'',
            \<lparr>req_method = GET,
             req_path = (''/calendars/'' @ cid @ ''/events'') @ (if qs = [] then [] else ''?'' @ qs),
             req_body = None\<rparr>)]
      \<and> qs_params qs =
          [(''maxResults'', str_int (max 1 (min 2500 n))),
           (''singleEvents'', if se then ''true'' else ''false'')]
          @ opt_param ''timeMin'' tmin @ opt_param ''timeMax'' tmax
          @ (if se then [(''orderBy'', ob)] else [])"
proof -
  obtain ps where "gcal_list_events c cid tmin tmax n se ob =
        request c GET (''/calendars/'' @ cid @ ''/events'') (Some ps) None"
    and "filter (\<lambda>kv. snd kv \<noteq> PNone) ps = ps"
    and "map (\<lambda>kv. (fst kv, py_str (snd kv))) ps =
          [(''maxResults'', str_int (max 1 (min 2500 n))),
           (''singleEvents'', if se then ''true'' else ''false'')]
          @ opt_param ''timeMin'' tmin @ opt_param ''timeMax'' tmax
          @ (if se then [(''orderBy'', ob)] else [])"
    by (cases tmin; cases tmax; cases se)
       (simp_all add: gcal_list_events_def Let_def opt_param_def lower_str_bool)
  then show ?thesis by (rule tool_request)
qed

lemma search_events_request:
  "\<exists>qs. sent (snd (gcal_search_events c q cid tmin tmax n)) =
          sent c @ [(''gcal-mcp'',
            \<lparr>req_method = GET,
             req_path = (''/calendars/'' @ cid @ ''/events'') @ (if qs = [] then [] else ''?'' @ qs),
             req_body = None\<rparr>)]
      \<and> qs_params qs =
          [(''q'', q), (''maxResults'', str_int (max 1 (min 2500 n))),
           (''singleEvents'', ''true''), (''orderBy'', ''startTime'')]
          @ opt_param ''timeMin'' tmin @ opt_param ''timeMax'' tmax"
proof -
  obtain ps where "gcal_search_events c q cid tmin tmax n =
        request c GET (''/calendars/'' @ cid @ ''/events'') (Some ps) None"
    and "filter (\<lambda>kv. snd kv \<noteq> PNone) ps = ps"
    and "map (\<lambda>kv. (fst kv, py_str (snd kv))) ps =
          [(''q'', q), (''maxResults'', str_int (max 1 (min 2500 n))),
           (''singleEvents'', ''true''), (''orderBy'', ''startTime'')]
          @ opt_param ''timeMin'' tmin @ opt_param ''timeMax'' tmax"
    by (cases tmin; cases tmax)
       (simp_all add: gcal_search_events_def Let_def opt_param_def)
  then show ?thesis by (rule tool_request)
qed

lemma event_instances_request:
  "\<exists>qs. sent (snd (gcal_get_event_instances c cid eid tmin tmax n)) =
          sent c @ [(''gcal-mcp'',
            \<lparr>req_method = GET,
             req_path = (''/calendars/'' @ cid @ ''/events/'' @ eid @ ''/instances'')
                        @ (if qs = [] then [] else ''?'' @ qs),
             req_body = None\<rparr>)]
      \<and> qs_params qs =
          [(''maxResults'', str_int (max 1 (min 2500 n)))]
          @ opt_param ''timeMin'' tmin @ opt_param ''timeMax'' tmax"
proof -
  obtain ps where "gcal_get_event_instances c cid eid tmin tmax n =
        request c GET (''/calendars/'' @ cid @ ''/events/'' @ eid @ ''/instances'') (Some ps) None"
    and "filter (\<lambda>kv. snd kv \<noteq> PNone) ps = ps"
    and "map (\<lambda>kv. (fst kv, py_str (snd kv))) ps =
          [(''maxResults'', str_int (max 1 (min 2500 n)))]
          @ opt_param ''timeMin'' tmin @ opt_param ''timeMax'' tmax"
    by (cases tmin; cases tmax)
       (simp_all add: gcal_get_event_instances_def Let_def opt_param_def)
  then show ?thesis by (rule tool_request)
qed

lemma create_event_request:
  "\<exists>qs. sent (snd (gcal_create_event c cid ev su sa)) =
          sent c @ [(''gcal-mcp'',
            \<lparr>req_method = POST,
             req_path = (''/calendars/'' @ cid @ ''/events'') @ (if qs = [] then [] else ''?'' @ qs),
             req_body = Some ev\<rparr>)]
      \<and> qs_params qs = some_param ''sendUpdates'' su @ flag_param ''supportsAttachments'' sa"
proof -
  obtain ps where "gcal_create_event c cid ev su sa =
        request c POST (''/calendars/'' @ cid @ ''/events'') (Some ps) (Some ev)"
    and "filter (\<lambda>kv. snd kv \<noteq> PNone) ps = ps"
    and "map (\<lambda>kv. (fst kv, py_str (snd kv))) ps =
          some_param ''sendUpdates'' su @ flag_param ''supportsAttachments'' sa"
    by (cases su; cases sa)
       (simp_all add: gcal_create_event_def Let_def some_param_def flag_param_def lower_str_bool)
  then show ?thesis by (rule tool_request)
qed

lemma import_event_request:
  "\<exists>qs. sent (snd (gcal_import_event c cid ev sa)) =
          sent c @ [(''gcal-mcp'',
            \<lparr>req_method = POST,
             req_path = (''/calendars/'' @ cid @ ''/events/import'')
                        @ (if qs = [] then [] else ''?'' @ qs),
             req_body = Some ev\<rparr>)]
      \<and> qs_params qs = flag_param ''supportsAttachments'' sa"
proof -
  obtain ps where "gcal_import_event c cid ev sa =
        request c POST (''/calendars/'' @ cid @ ''/events/import'') (Some ps) (Some ev)"
    and "filter (\<lambda>kv. snd kv \<noteq> PNone) ps = ps"
    and "map (\<lambda>kv. (fst kv, py_str (snd kv))) ps = flag_param ''supportsAttachments'' sa"
    by (cases sa)
       (simp_all add: gcal_import_event_def Let_def flag_param_def lower_str_bool)
  then show ?thesis by (rule tool_request)
qed

lemma events_watch_request:
  "\<exists>qs. sent (snd (gcal_events_watch c cid ch tmin tmax se)) =
          sent c @ [(''gcal-mcp'',
            \<lparr>req_method = POST,
             req_path = (''/calendars/'' @ cid @ ''/events/watch'')
                        @ (if qs = [] then [] else ''?'' @ qs),
             req_body = Some ch\<rparr>)]
      \<and> qs_params qs = some_param ''timeMin'' tmin @ some_param ''timeMax'' tmax
                          @ flag_param ''singleEvents'' se"
proof -
  obtain ps where "gcal_events_watch c cid ch tmin tmax se =
        request c POST (''/calendars/'' @ cid @ ''/events/watch'') (Some ps) (Some ch)"
    and "filter (\<lambda>kv. snd kv \<noteq> PNone) ps = ps"
    and "map (\<lambda>kv. (fst kv, py_str (snd kv))) ps =
          some_param ''timeMin'' tmin @ some_param ''timeMax'' tmax @ flag_param ''singleEvents'' se"
    by (cases tmin; cases tmax; cases se)
       (simp_all add: gcal_events_watch_def Let_def some_param_def flag_param_def lower_str_bool)
  then show ?thesis by (rule tool_request)
qed

lemma qs_params_nonempty: "qs_params qs = x # xs \<Longrightarrow> (if qs = [] then [] else ''?'' @ qs) = ''?'' @ qs"
  using qs_params_Nil by auto

lemma max_min_clamped: "max 1 (min 2500 n) = clamped n"
  by (simp add: clamped_def)

lemma filter_opt_param:
  "k \<noteq> k' \<Longrightarrow> filter (\<lambda>kv. fst kv = k) (opt_param k' v) = []"
  by (simp add: opt_param_def split: option.splits)

lemma filter_some_param:
  "k \<noteq> k' \<Longrightarrow> filter (\<lambda>kv. fst kv = k) (some_param k' v) = []"
  by (simp add: some_param_def split: option.splits)

lemma filter_flag_param:
  "k \<noteq> k' \<Longrightarrow> filter (\<lambda>kv. fst kv = k) (flag_param k' v) = []"
  by (simp add: flag_param_def split: option.splits)

lemma str_int_examples:
  "str_int (clamped 0) = ''1''" "str_int (clamped 5000) = ''2500''" "str_int (clamped 100) = ''100''"
  by (simp_all add: clamped_def str_int_def str_nat.simps digit_char_def)

lemma filter_flag_param_same:
  "map snd (filter (\<lambda>kv. fst kv = k) (flag_param k (Some b))) = [if b then ''true'' else ''false'']"
  by (simp add: flag_param_def)

lemma quote_plus_examples:
  "quote_plus ''maxResults'' = ''maxResults''"
  "quote_plus ''singleEvents'' = ''singleEvents''"
  "quote_plus ''timeMin'' = ''timeMin''"
  "quote_plus ''orderBy'' = ''orderBy''"
  "quote_plus ''10'' = ''10''"
  "quote_plus ''true'' = ''true''"
  "quote_plus ''startTime'' = ''startTime''"
  "quote_plus ''2025-01-01T00:00:00Z'' = ''2025-01-01T00%3A00%3A00Z''"
  by (simp_all add: quote_plus_def quote_char_def always_safe_def hex_digit_def)

lemma str_int_10: "str_int 10 = ''10''"
  by (simp add: str_int_def str_nat.simps digit_char_def)

lemma freebusy_request:
  "sent (snd (gcal_get_freebusy c tmin tmax ids tz)) =
     sent c @ [(''gcal-mcp'',
       \<lparr>req_method = POST, req_path = ''/freeBusy'',
        req_body = Some ([(''timeMin'', JStr tmin), (''timeMax'', JStr tmax),
                          (''items'', JList (map (\<lambda>cal_id. JObj [(''id'', JStr cal_id)])
                             (case ids of None \<Rightarrow> [''primary''] | Some l \<Rightarrow> l)))]
                         @ opt_field ''timeZone'' tz)\<rparr>)]"
  by (cases tz)
     (simp_all add: gcal_get_freebusy_def Let_def request_sent final_path_def opt_field_def)

lemma create_calendar_request:
  "sent (snd (gcal_create_calendar c s d t l)) =
     sent c @ [(''gcal-mcp'',
       \<lparr>req_method = POST, req_path = ''/calendars'',
        req_body = Some ([(''summary'', JStr s)] @ some_field ''description'' d
                         @ some_field ''timeZone'' t @ some_field ''location'' l)\<rparr>)]"
  by (cases d; cases t; cases l)
     (simp_all add: gcal_create_calendar_def Let_def request_sent final_path_def some_field_def)

lemma filter_opt_field:
  "k \<noteq> k' \<Longrightarrow> filter (\<lambda>kv. fst kv = k) (opt_field k' v) = []"
  by (simp add: opt_field_def split: option.splits)

lemma request_no_params:
  "\<exists>qs. sent (snd (request c m p None b)) =
            sent c @ [(''gcal-mcp'',
              \<lparr>req_method = m, req_path = p @ (if qs = [] then [] else ''?'' @ qs), req_body = b\<rparr>)]
          \<and> qs_params qs = []"
  by (rule exI[of _ "[]"]) (simp add: request_sent final_path_def qs_params_Nil)

lemma send_updates_request:
  assumes "tool = request c m p
      (Some (case su of None \<Rightarrow> ps | Some s \<Rightarrow> dict_set ps ''sendUpdates'' (PStr s))) b"
    and "ps = [] \<or> (\<exists>k v. ps = [(k, PStr v)] \<and> k \<noteq> ''sendUpdates'')"
  shows "\<exists>qs. sent (snd tool) =
            sent c @ [(''gcal-mcp'',
              \<lparr>req_method = m, req_path = p @ (if qs = [] then [] else ''?'' @ qs), req_body = b\<rparr>)]
          \<and> qs_params qs = map (\<lambda>kv. (fst kv, py_str (snd kv))) ps @ some_param ''sendUpdates'' su"
proof -
  let ?ps = "case su of None \<Rightarrow> ps | Some s \<Rightarrow> dict_set ps ''sendUpdates'' (PStr s)"
  have "filter (\<lambda>kv. snd kv \<noteq> PNone) ?ps = ?ps"
    using assms(2) by (cases su) auto
  moreover have "map (\<lambda>kv. (fst kv, py_str (snd kv))) ?ps =
      map (\<lambda>kv. (fst kv, py_str (snd kv))) ps @ some_param ''sendUpdates'' su"
    using assms(2) by (cases su) (auto simp: some_param_def)
  ultimately show ?thesis
    using assms(1) by (intro tool_request[of tool c m p ?ps b]) simp_all
qed

lemma run_tool_wire:
  "\<exists>qs. sent (snd (run_tool c t)) =
            sent c @ [(''gcal-mcp'',
              \<lparr>req_method = tool_method t,
               req_path = tool_path t @ (if qs = [] then [] else ''?'' @ qs),
               req_body = tool_body t\<rparr>)]
          \<and> qs_params qs = tool_query t"
proof (cases t)
  case ListCalendars
  then show ?thesis
    using tool_request[of "gcal_list_calendars c" c GET "''/users/me/calendarList''"
        "[(''minAccessRole'', PStr ''reader'')]" None "[(''minAccessRole'', ''reader'')]"]
    by (simp add: gcal_list_calendars_def tool_method_def tool_path_def tool_query_def tool_body_def)
next
  case (GetCalendar i)
  then show ?thesis
    using request_no_params[of c GET "''/calendars/'' @ i" "None"]
    by (simp add: gcal_get_calendar_def tool_method_def tool_path_def tool_query_def tool_body_def)
next
  case (CreateCalendar s d tz l)
  then show ?thesis
    by (intro exI[of _ "[]"]) (simp add: create_calendar_request qs_params_Nil tool_method_def tool_path_def tool_query_def tool_body_def)
next
  case (DeleteCalendar i)
  then show ?thesis
    using request_no_params[of c DELETE "''/calendars/'' @ i" "None"]
    by (simp add: gcal_delete_calendar_def tool_method_def tool_path_def tool_query_def tool_body_def)
next
  case (ClearCalendar i)
  then show ?thesis
    using request_no_params[of c POST "''/calendars/'' @ i @ ''/clear''" "None"]
    by (simp add: gcal_clear_calendar_def tool_method_def tool_path_def tool_query_def tool_body_def)
next
  case (PatchCalendar i p)
  then show ?thesis
    using request_no_params[of c PATCH "''/calendars/'' @ i" "Some p"]
    by (simp add: gcal_patch_calendar_def tool_method_def tool_path_def tool_query_def tool_body_def)
next
  case (UpdateCalendar i p)
  then show ?thesis
    using request_no_params[of c PUT "''/calendars/'' @ i" "Some p"]
    by (simp add: gcal_update_calendar_def tool_method_def tool_path_def tool_query_def tool_body_def)
next
  case (CalendarlistGet i)
  then show ?thesis
    using request_no_params[of c GET "''/users/me/calendarList/'' @ i" "None"]
    by (simp add: gcal_calendarlist_get_def tool_method_def tool_path_def tool_query_def tool_body_def)
next
  case (CalendarlistInsert e)
  then show ?thesis
    using request_no_params[of c POST "''/users/me/calendarList''" "Some e"]
    by (simp add: gcal_calendarlist_insert_def tool_method_def tool_path_def tool_query_def tool_body_def)
next
  case (CalendarlistDelete i)
  then show ?thesis
    using request_no_params[of c DELETE "''/users/me/calendarList/'' @ i" "None"]
    by (simp add: gcal_calendarlist_delete_def tool_method_def tool_path_def tool_query_def tool_body_def)
next
  case (CalendarlistPatch i p)
  then show ?thesis
    using request_no_params[of c PATCH "''/users/me/calendarList/'' @ i" "Some p"]
    by (simp add: gcal_calendarlist_patch_def tool_method_def tool_path_def tool_query_def tool_body_def)
next
  case (CalendarlistUpdate i e)
  then show ?thesis
    using request_no_params[of c PUT "''/users/me/calendarList/'' @ i" "Some e"]
    by (simp add: gcal_calendarlist_update_def tool_method_def tool_path_def tool_query_def tool_body_def)
next
  case (ListEvents i tmin tmax n se ob)
  then show ?thesis
    using list_events_request[of c i tmin tmax n se ob]
    by (simp add: tool_method_def tool_path_def tool_query_def tool_body_def)
next
  case (GetEvent i e)
  then show ?thesis
    using request_no_params[of c GET "''/calendars/'' @ i @ ''/events/'' @ e" "None"]
    by (simp add: gcal_get_event_def tool_method_def tool_path_def tool_query_def tool_body_def)
next
  case (SearchEvents q i tmin tmax n)
  then show ?thesis
    using search_events_request[of c q i tmin tmax n]
    by (simp add: tool_method_def tool_path_def tool_query_def tool_body_def)
next
  case (GetEventInstances i e tmin tmax n)
  then show ?thesis
    using event_instances_request[of c i e tmin tmax n]
    by (simp add: tool_method_def tool_path_def tool_query_def tool_body_def)
next
  case (CreateEvent i ev su sa)
  then show ?thesis
    using create_event_request[of c i ev su sa]
    by (simp add: tool_method_def tool_path_def tool_query_def tool_body_def)
next
  case (DeleteEvent i e su)
  then show ?thesis
    using send_updates_request[where tool = "gcal_delete_event c i e su" and c = c and m = DELETE
        and p = "''/calendars/'' @ i @ ''/events/'' @ e" and su = su and ps = "[]" and b = "None"]
    by (simp add: gcal_delete_event_def tool_method_def tool_path_def tool_query_def tool_body_def)
next
  case (PatchEvent i e p su)
  then show ?thesis
    using send_updates_request[where tool = "gcal_patch_event c i e p su" and c = c and m = PATCH
        and p = "''/calendars/'' @ i @ ''/events/'' @ e" and su = su and ps = "[]" and b = "Some p"]
    by (simp add: gcal_patch_event_def tool_method_def tool_path_def tool_query_def tool_body_def)
next
  case (UpdateEvent i e ev su)
  then show ?thesis
    using send_updates_request[where tool = "gcal_update_event c i e ev su" and c = c and m = PUT
        and p = "''/calendars/'' @ i @ ''/events/'' @ e" and su = su and ps = "[]" and b = "Some ev"]
    by (simp add: gcal_update_event_def tool_method_def tool_path_def tool_query_def tool_body_def)
next
  case (QuickAddEvent i tx su)
  then show ?thesis
    using send_updates_request[where tool = "gcal_quick_add_event c i tx su" and c = c and m = POST
        and p = "''/calendars/'' @ i @ ''/events/quickAdd''" and su = su and ps = "[(''text'', PStr tx)]" and b = "None"]
    by (simp add: Let_def gcal_quick_add_event_def tool_method_def tool_path_def tool_query_def tool_body_def)
next
  case (MoveEvent i e d su)
  then show ?thesis
    using send_updates_request[where tool = "gcal_move_event c i e d su" and c = c and m = POST
        and p = "''/calendars/'' @ i @ ''/events/'' @ e @ ''/move''" and su = su and ps = "[(''destination'', PStr d)]" and b = "None"]
    by (simp add: Let_def gcal_move_event_def tool_method_def tool_path_def tool_query_def tool_body_def)
next
  case (ImportEvent i ev sa)
  then show ?thesis
    using import_event_request[of c i ev sa]
    by (simp add: tool_method_def tool_path_def tool_query_def tool_body_def)
next
  case (GetFreebusy tmin tmax ids tz)
  then show ?thesis
    by (intro exI[of _ "[]"]) (simp add: freebusy_request qs_params_Nil tool_method_def tool_path_def tool_query_def tool_body_def)
next
  case GetSettings
  then show ?thesis
    using request_no_params[of c GET "''/users/me/settings''" "None"]
    by (simp add: gcal_get_settings_def tool_method_def tool_path_def tool_query_def tool_body_def)
next
  case (GetSetting i)
  then show ?thesis
    using request_no_params[of c GET "''/users/me/settings/'' @ i" "None"]
    by (simp add: gcal_get_setting_def tool_method_def tool_path_def tool_query_def tool_body_def)
next
  case (SettingsWatch ch)
  then show ?thesis
    using request_no_params[of c POST "''/users/me/settings/watch''" "Some ch"]
    by (simp add: gcal_settings_watch_def tool_method_def tool_path_def tool_query_def tool_body_def)
next
  case GetColors
  then show ?thesis
    using request_no_params[of c GET "''/colors''" "None"]
    by (simp add: gcal_get_colors_def tool_method_def tool_path_def tool_query_def tool_body_def)
next
  case (ChannelsStop ch)
  then show ?thesis
    using request_no_params[of c POST "''/channels/stop''" "Some ch"]
    by (simp add: gcal_channels_stop_def tool_method_def tool_path_def tool_query_def tool_body_def)
next
  case (EventsWatch i ch tmin tmax se)
  then show ?thesis
    using events_watch_request[of c i ch tmin tmax se]
    by (simp add: tool_method_def tool_path_def tool_query_def tool_body_def)
next
  case (CalendarlistWatch ch)
  then show ?thesis
    using request_no_params[of c POST "''/users/me/calendarList/watch''" "Some ch"]
    by (simp add: gcal_calendarlist_watch_def tool_method_def tool_path_def tool_query_def tool_body_def)
qed

lemma to_result_invariant: "to_result resp = Inr r \<Longrightarrow> result_invariant r"
  by (auto simp: to_result_def result_invariant_def split: if_splits option.splits)

lemma request_invariant: "fst (request c m p ps b) = Inr r \<Longrightarrow> result_invariant r"
  by (simp add: request_eq to_result_invariant)

lemma run_tool_request: "\<exists>m p ps b. run_tool c t = request c m p ps b"
  by (cases t)
     (simp_all add: Let_def gcal_list_calendars_def gcal_get_calendar_def gcal_create_calendar_def
        gcal_delete_calendar_def gcal_clear_calendar_def gcal_patch_calendar_def
        gcal_update_calendar_def gcal_calendarlist_get_def gcal_calendarlist_insert_def
        gcal_calendarlist_delete_def gcal_calendarlist_patch_def gcal_calendarlist_update_def
        gcal_list_events_def gcal_get_event_def gcal_search_events_def
        gcal_get_event_instances_def gcal_create_event_def gcal_delete_event_def
        gcal_patch_event_def gcal_update_event_def gcal_quick_add_event_def gcal_move_event_def
        gcal_import_event_def gcal_get_freebusy_def gcal_get_settings_def gcal_get_setting_def
        gcal_settings_watch_def gcal_get_colors_def gcal_channels_stop_def gcal_events_watch_def
        gcal_calendarlist_watch_def, blast+)

lemma absent_query_not_sent:
  "k \<in> set (absent_query_keys t) \<Longrightarrow> k \<notin> fst ` set (tool_query t)"
  by (cases t)
     (auto simp: absent_query_keys_def absent_def tool_query_def some_param_def opt_param_def
        flag_param_def split: if_splits)

lemma absent_body_not_sent:
  "k \<in> set (absent_body_keys t) \<Longrightarrow> k \<notin> body_keys (tool_body t)"
  by (cases t)
     (auto simp: absent_body_keys_def absent_def tool_body_def body_keys_def some_field_def
        opt_field_def split: if_splits)

section \<open>The claims\<close>

text \<open>
  C1. \<open>request\<close> dispatches, under the connection name \<open>gcal-mcp\<close>, the request made of
  its method, its path with the query string appended, and its body. Whenever the dispatch
  capability answers that request with \<open>success = True\<close> and a response object \<open>r\<close>,
  \<open>request\<close> returns the result with \<open>success = True\<close>, \<open>error = None\<close> and \<open>data\<close> equal
  to the body of \<open>r\<close>, unchanged, whatever that body is.
\<close>

theorem request_success_data:
  assumes "handler c ''gcal-mcp'' \<lparr>req_method = m, req_path = final_path p ps, req_body = b\<rparr>
             = resp"
      and "disp_success resp"
      and "disp_response resp = Some r"
  shows "request c m p ps b =
           (Inr \<lparr>success = True, data = resp_body r, error = None\<rparr>,
            c\<lparr>sent := sent c @
               [(''gcal-mcp'', \<lparr>req_method = m, req_path = final_path p ps, req_body = b\<rparr>)]\<rparr>)"
  using assms by (simp add: request_eq to_result_def)

theorem request_success_data_witness:
  "fst (request ok_ctx GET ''/colors'' None None) =
     Inr \<lparr>success = True, data = JObj [(''kind'', JStr ''calendar#events'')], error = None\<rparr>
   \<and> fst (request echo_ctx GET ''/events'' (Some [(''q'', PStr ''a b''), (''x'', PNone)]) None) =
     Inr \<lparr>success = True,
          data = JObj [(''connection'', JStr ''gcal-mcp''), (''path'', JStr ''/events?q=a+b'')],
          error = None\<rparr>"
proof -
  let ?req = "\<lparr>req_method = GET, req_path = final_path ''/colors'' None, req_body = None\<rparr>"
  have h: "handler ok_ctx ''gcal-mcp'' ?req = ok_handler ''gcal-mcp'' ?req"
    by (simp add: ok_ctx_def)
  have s: "disp_success (ok_handler ''gcal-mcp'' ?req)"
    by (simp add: ok_handler_def)
  have r: "disp_response (ok_handler ''gcal-mcp'' ?req) =
      Some \<lparr>resp_body = JObj [(''kind'', JStr ''calendar#events'')]\<rparr>"
    by (simp add: ok_handler_def)
  have a: "fst (request ok_ctx GET ''/colors'' None None) =
     Inr \<lparr>success = True, data = JObj [(''kind'', JStr ''calendar#events'')], error = None\<rparr>"
    using request_success_data[OF h s r] by simp
  let ?ps = "Some [(''q'', PStr ''a b''), (''x'', PNone)]"
  let ?req2 = "\<lparr>req_method = GET, req_path = final_path ''/events'' ?ps, req_body = None\<rparr>"
  have pth: "final_path ''/events'' ?ps = ''/events?q=a+b''"
    by (simp add: final_path_def urlencode_def encode_pair_def quote_plus_def quote_char_def
        always_safe_def)
  have h2: "handler echo_ctx ''gcal-mcp'' ?req2 = echo_handler ''gcal-mcp'' ?req2"
    by (simp add: echo_ctx_def)
  have s2: "disp_success (echo_handler ''gcal-mcp'' ?req2)"
    by (simp add: echo_handler_def)
  have r2: "disp_response (echo_handler ''gcal-mcp'' ?req2) =
      Some \<lparr>resp_body = JObj [(''connection'', JStr ''gcal-mcp''),
                                (''path'', JStr (final_path ''/events'' ?ps))]\<rparr>"
    by (simp add: echo_handler_def)
  have b: "fst (request echo_ctx GET ''/events'' ?ps None) =
     Inr \<lparr>success = True,
          data = JObj [(''connection'', JStr ''gcal-mcp''), (''path'', JStr ''/events?q=a+b'')],
          error = None\<rparr>"
    using request_success_data[OF h2 s2 r2] pth by simp
  from a b show ?thesis by (rule conjI)
qed



text \<open>
  Two edges of the result, for the record. The error string is passed on as it is, so an
  error object whose message is the empty string gives \<open>error = ""\<close>; and a response
  that reports success without a response object makes \<open>request\<close> raise.
\<close>

lemma empty_message_passed_on:
  "fst (request \<lparr>handler = empty_message_handler, sent = []\<rparr> GET ''/colors'' None None) =
     Inr \<lparr>success = False, data = JNull, error = Some []\<rparr>"
  by (simp add: request_eq to_result_def empty_message_handler_def)

lemma success_without_response_raises:
  "fst (request \<lparr>handler = no_response_handler, sent = []\<rparr> GET ''/colors'' None None) =
     Inl AttributeError"
  by (simp add: request_eq to_result_def no_response_handler_def)

text \<open>
  C3. For every params dict, the query string that \<open>request\<close> appends decodes to exactly
  the entries whose value is not \<open>None\<close>, in order, each as (key, \<open>str(value)\<close>): a
  \<open>None\<close>-valued entry contributes nothing, and in a dict (distinct keys) its key is not
  among the keys of the query string. When no entry remains, and when params is \<open>None\<close>, no
  \<open>?\<close> is appended and the path is dispatched unchanged.
\<close>

theorem request_null_params_dropped:
  "(\<exists>qs. sent (snd (request c m p (Some ps) b)) =
            sent c @ [(''gcal-mcp'',
              \<lparr>req_method = m, req_path = (if qs = [] then p else p @ ''?'' @ qs), req_body = b\<rparr>)]
        \<and> qs_params qs = map (\<lambda>kv. (fst kv, py_str (snd kv))) (filter (\<lambda>kv. snd kv \<noteq> PNone) ps)
        \<and> (filter (\<lambda>kv. snd kv \<noteq> PNone) ps = [] \<longrightarrow> qs = [])
        \<and> (distinct (map fst ps) \<longrightarrow>
             (\<forall>k. (k, PNone) \<in> set ps \<longrightarrow> k \<notin> fst ` set (qs_params qs))))
   \<and> sent (snd (request c m p None b)) =
         sent c @ [(''gcal-mcp'', \<lparr>req_method = m, req_path = p, req_body = b\<rparr>)]"
proof -
  let ?kept = "filter (\<lambda>kv. snd kv \<noteq> PNone) ps"
  let ?qs = "urlencode ?kept"
  have path: "final_path p (Some ps) = (if ?qs = [] then p else p @ ''?'' @ ?qs)"
    by (simp add: final_path_def urlencode_empty_iff)
  have parsed: "qs_params ?qs = map (\<lambda>kv. (fst kv, py_str (snd kv))) ?kept"
    by (rule qs_params_urlencode)
  have empty: "?kept = [] \<longrightarrow> ?qs = []"
    by (simp add: urlencode_empty_iff)
  have keys: "distinct (map fst ps) \<longrightarrow>
      (\<forall>k. (k, PNone) \<in> set ps \<longrightarrow> k \<notin> fst ` set (qs_params ?qs))"
  proof (intro impI allI notI)
    fix k
    assume d: "distinct (map fst ps)" and n: "(k, PNone) \<in> set ps"
      and "k \<in> fst ` set (qs_params ?qs)"
    then obtain v where "(k, v) \<in> set ps" and "v \<noteq> PNone"
      by (auto simp: parsed)
    with d n show False
      using eq_key_imp_eq_value[of ps k v PNone] by simp
  qed
  have none: "final_path p None = p"
    by (simp add: final_path_def)
  have a: "sent (snd (request c m p (Some ps) b)) =
            sent c @ [(''gcal-mcp'',
              \<lparr>req_method = m, req_path = (if ?qs = [] then p else p @ ''?'' @ ?qs), req_body = b\<rparr>)]"
    by (simp only: request_sent path)
  have b: "sent (snd (request c m p None b)) =
         sent c @ [(''gcal-mcp'', \<lparr>req_method = m, req_path = p, req_body = b\<rparr>)]"
    by (simp only: request_sent none)
  show ?thesis
    by (rule conjI[OF exI[of _ ?qs] b]) (intro conjI a parsed empty keys)
qed


theorem request_null_params_dropped_witness:
  "(\<exists>qs. sent (snd (request ok_ctx GET ''/events''
               (Some [(''timeMin'', PNone), (''q'', PStr ''a b'')]) None)) =
            [(''gcal-mcp'', \<lparr>req_method = GET, req_path = ''/events?'' @ qs, req_body = None\<rparr>)]
        \<and> qs_params qs = [(''q'', ''a b'')]
        \<and> ''timeMin'' \<notin> fst ` set (qs_params qs))
   \<and> sent (snd (request ok_ctx GET ''/events'' (Some [(''timeMin'', PNone)]) None)) =
         [(''gcal-mcp'', \<lparr>req_method = GET, req_path = ''/events'', req_body = None\<rparr>)]"
proof -
  have e: "sent ok_ctx = []"
    by (simp add: ok_ctx_def)
  obtain qs where
    s: "sent (snd (request ok_ctx GET ''/events''
               (Some [(''timeMin'', PNone), (''q'', PStr ''a b'')]) None)) =
            sent ok_ctx @ [(''gcal-mcp'',
              \<lparr>req_method = GET, req_path = (if qs = [] then ''/events'' else ''/events'' @ ''?'' @ qs),
               req_body = None\<rparr>)]"
    and q: "qs_params qs = map (\<lambda>kv. (fst kv, py_str (snd kv)))
              (filter (\<lambda>kv. snd kv \<noteq> PNone) [(''timeMin'', PNone), (''q'', PStr ''a b'')])"
    using request_null_params_dropped
      [of ok_ctx GET "''/events''" "[(''timeMin'', PNone), (''q'', PStr ''a b'')]" None]
    by blast
  from q have q': "qs_params qs = [(''q'', ''a b'')]"
    by simp
  then have "qs \<noteq> []"
    using qs_params_Nil by auto
  with s e have s': "sent (snd (request ok_ctx GET ''/events''
               (Some [(''timeMin'', PNone), (''q'', PStr ''a b'')]) None)) =
            [(''gcal-mcp'', \<lparr>req_method = GET, req_path = ''/events?'' @ qs, req_body = None\<rparr>)]"
    by simp
  have k: "''timeMin'' \<notin> fst ` set (qs_params qs)"
    by (simp add: q')
  obtain qs2 where
    s2: "sent (snd (request ok_ctx GET ''/events'' (Some [(''timeMin'', PNone)]) None)) =
            sent ok_ctx @ [(''gcal-mcp'',
              \<lparr>req_method = GET, req_path = (if qs2 = [] then ''/events'' else ''/events'' @ ''?'' @ qs2),
               req_body = None\<rparr>)]"
    and z: "filter (\<lambda>kv. snd kv \<noteq> PNone) [(''timeMin'', PNone)] = [] \<longrightarrow> qs2 = []"
    using request_null_params_dropped [of ok_ctx GET "''/events''" "[(''timeMin'', PNone)]" None]
    by blast
  from z have "qs2 = []" by simp
  with s2 e have s2': "sent (snd (request ok_ctx GET ''/events'' (Some [(''timeMin'', PNone)]) None)) =
         [(''gcal-mcp'', \<lparr>req_method = GET, req_path = ''/events'', req_body = None\<rparr>)]"
    by simp
  from s' q' k s2' show ?thesis by blast
qed

text \<open>
  C5. For every integer \<open>max_results\<close>, each of \<open>gcal_list_events\<close>, \<open>gcal_search_events\<close>
  and \<open>gcal_get_event_instances\<close> dispatches a request whose query string carries exactly
  one \<open>maxResults\<close> parameter, the decimal text of the input clamped to [1, 2500]: the
  clamped value lies in the range and is the input when the input does; 0 is sent as \<open>1\<close>,
  5000 as \<open>2500\<close> and 100 as \<open>100\<close>.
\<close>

theorem max_results_clamped:
  "(\<exists>qs. sent (snd (gcal_list_events c cid tmin tmax n se ob)) =
            sent c @ [(''gcal-mcp'',
              \<lparr>req_method = GET, req_path = ''/calendars/'' @ cid @ ''/events?'' @ qs,
               req_body = None\<rparr>)]
        \<and> map snd (filter (\<lambda>kv. fst kv = ''maxResults'') (qs_params qs)) = [str_int (clamped n)])
   \<and> (\<exists>qs. sent (snd (gcal_search_events c q cid tmin tmax n)) =
            sent c @ [(''gcal-mcp'',
              \<lparr>req_method = GET, req_path = ''/calendars/'' @ cid @ ''/events?'' @ qs,
               req_body = None\<rparr>)]
        \<and> map snd (filter (\<lambda>kv. fst kv = ''maxResults'') (qs_params qs)) = [str_int (clamped n)])
   \<and> (\<exists>qs. sent (snd (gcal_get_event_instances c cid eid tmin tmax n)) =
            sent c @ [(''gcal-mcp'',
              \<lparr>req_method = GET,
               req_path = ''/calendars/'' @ cid @ ''/events/'' @ eid @ ''/instances?'' @ qs,
               req_body = None\<rparr>)]
        \<and> map snd (filter (\<lambda>kv. fst kv = ''maxResults'') (qs_params qs)) = [str_int (clamped n)])
   \<and> 1 \<le> clamped n \<and> clamped n \<le> 2500
   \<and> (1 \<le> n \<and> n \<le> 2500 \<longrightarrow> clamped n = n)
   \<and> str_int (clamped 0) = ''1'' \<and> str_int (clamped 5000) = ''2500''
   \<and> str_int (clamped 100) = ''100''"
proof -
  obtain qs1 where
    s1: "sent (snd (gcal_list_events c cid tmin tmax n se ob)) =
          sent c @ [(''gcal-mcp'',
            \<lparr>req_method = GET,
             req_path = (''/calendars/'' @ cid @ ''/events'') @ (if qs1 = [] then [] else ''?'' @ qs1),
             req_body = None\<rparr>)]"
    and p1: "qs_params qs1 =
          [(''maxResults'', str_int (max 1 (min 2500 n))),
           (''singleEvents'', if se then ''true'' else ''false'')]
          @ opt_param ''timeMin'' tmin @ opt_param ''timeMax'' tmax
          @ (if se then [(''orderBy'', ob)] else [])"
    using list_events_request by blast
  have a: "\<exists>qs. sent (snd (gcal_list_events c cid tmin tmax n se ob)) =
            sent c @ [(''gcal-mcp'',
              \<lparr>req_method = GET, req_path = ''/calendars/'' @ cid @ ''/events?'' @ qs,
               req_body = None\<rparr>)]
        \<and> map snd (filter (\<lambda>kv. fst kv = ''maxResults'') (qs_params qs)) = [str_int (clamped n)]"
    using s1 qs_params_nonempty[of qs1] p1
    by (intro exI[of _ qs1]) (simp add: filter_opt_param max_min_clamped)
  obtain qs2 where
    s2: "sent (snd (gcal_search_events c q cid tmin tmax n)) =
          sent c @ [(''gcal-mcp'',
            \<lparr>req_method = GET,
             req_path = (''/calendars/'' @ cid @ ''/events'') @ (if qs2 = [] then [] else ''?'' @ qs2),
             req_body = None\<rparr>)]"
    and p2: "qs_params qs2 =
          [(''q'', q), (''maxResults'', str_int (max 1 (min 2500 n))),
           (''singleEvents'', ''true''), (''orderBy'', ''startTime'')]
          @ opt_param ''timeMin'' tmin @ opt_param ''timeMax'' tmax"
    using search_events_request by blast
  have b: "\<exists>qs. sent (snd (gcal_search_events c q cid tmin tmax n)) =
            sent c @ [(''gcal-mcp'',
              \<lparr>req_method = GET, req_path = ''/calendars/'' @ cid @ ''/events?'' @ qs,
               req_body = None\<rparr>)]
        \<and> map snd (filter (\<lambda>kv. fst kv = ''maxResults'') (qs_params qs)) = [str_int (clamped n)]"
    using s2 qs_params_nonempty[of qs2] p2
    by (intro exI[of _ qs2]) (simp add: filter_opt_param max_min_clamped)
  obtain qs3 where
    s3: "sent (snd (gcal_get_event_instances c cid eid tmin tmax n)) =
          sent c @ [(''gcal-mcp'',
            \<lparr>req_method = GET,
             req_path = (''/calendars/'' @ cid @ ''/events/'' @ eid @ ''/instances'')
                        @ (if qs3 = [] then [] else ''?'' @ qs3),
             req_body = None\<rparr>)]"
    and p3: "qs_params qs3 =
          [(''maxResults'', str_int (max 1 (min 2500 n)))]
          @ opt_param ''timeMin'' tmin @ opt_param ''timeMax'' tmax"
    using event_instances_request by blast
  have c: "\<exists>qs. sent (snd (gcal_get_event_instances c cid eid tmin tmax n)) =
            sent c @ [(''gcal-mcp'',
              \<lparr>req_method = GET,
               req_path = ''/calendars/'' @ cid @ ''/events/'' @ eid @ ''/instances?'' @ qs,
               req_body = None\<rparr>)]
        \<and> map snd (filter (\<lambda>kv. fst kv = ''maxResults'') (qs_params qs)) = [str_int (clamped n)]"
    using s3 qs_params_nonempty[of qs3] p3
    by (intro exI[of _ qs3]) (simp add: filter_opt_param max_min_clamped)
  have d: "1 \<le> clamped n \<and> clamped n \<le> 2500 \<and> (1 \<le> n \<and> n \<le> 2500 \<longrightarrow> clamped n = n)"
    by (simp add: clamped_def)
  from a b c d str_int_examples show ?thesis
    by (intro conjI) simp_all
qed

theorem max_results_clamped_witness:
  "(\<exists>qs. sent (snd (gcal_list_events ok_ctx ''primary'' None None 0 True ''startTime'')) =
            [(''gcal-mcp'',
              \<lparr>req_method = GET, req_path = ''/calendars/primary/events?'' @ qs, req_body = None\<rparr>)]
        \<and> map snd (filter (\<lambda>kv. fst kv = ''maxResults'') (qs_params qs)) = [''1''])
   \<and> (\<exists>qs. sent (snd (gcal_search_events ok_ctx ''lunch'' ''primary'' None None 5000)) =
            [(''gcal-mcp'',
              \<lparr>req_method = GET, req_path = ''/calendars/primary/events?'' @ qs, req_body = None\<rparr>)]
        \<and> map snd (filter (\<lambda>kv. fst kv = ''maxResults'') (qs_params qs)) = [''2500''])
   \<and> (\<exists>qs. sent (snd (gcal_get_event_instances ok_ctx ''primary'' ''ev1'' None None 100)) =
            [(''gcal-mcp'',
              \<lparr>req_method = GET, req_path = ''/calendars/primary/events/ev1/instances?'' @ qs,
               req_body = None\<rparr>)]
        \<and> map snd (filter (\<lambda>kv. fst kv = ''maxResults'') (qs_params qs)) = [''100''])"
proof -
  have e: "sent ok_ctx = []"
    by (simp add: ok_ctx_def)
  have a: "\<exists>qs. sent (snd (gcal_list_events ok_ctx ''primary'' None None 0 True ''startTime'')) =
            [(''gcal-mcp'',
              \<lparr>req_method = GET, req_path = ''/calendars/primary/events?'' @ qs, req_body = None\<rparr>)]
        \<and> map snd (filter (\<lambda>kv. fst kv = ''maxResults'') (qs_params qs)) = [''1'']"
    using max_results_clamped[where c = ok_ctx and cid = "''primary''" and tmin = None
        and tmax = None and n = 0 and se = True and ob = "''startTime''" and q = "''lunch''" and eid = "''ev1''"] e
    by (simp add: str_int_examples)
  have b: "\<exists>qs. sent (snd (gcal_search_events ok_ctx ''lunch'' ''primary'' None None 5000)) =
            [(''gcal-mcp'',
              \<lparr>req_method = GET, req_path = ''/calendars/primary/events?'' @ qs, req_body = None\<rparr>)]
        \<and> map snd (filter (\<lambda>kv. fst kv = ''maxResults'') (qs_params qs)) = [''2500'']"
    using max_results_clamped[where c = ok_ctx and cid = "''primary''" and tmin = None
        and tmax = None and n = 5000 and se = True and ob = "''startTime''" and q = "''lunch''"
        and eid = "''ev1''"] e
    by (simp add: str_int_examples)
  have c: "\<exists>qs. sent (snd (gcal_get_event_instances ok_ctx ''primary'' ''ev1'' None None 100)) =
            [(''gcal-mcp'',
              \<lparr>req_method = GET, req_path = ''/calendars/primary/events/ev1/instances?'' @ qs,
               req_body = None\<rparr>)]
        \<and> map snd (filter (\<lambda>kv. fst kv = ''maxResults'') (qs_params qs)) = [''100'']"
    using max_results_clamped[where c = ok_ctx and cid = "''primary''" and tmin = None
        and tmax = None and n = 100 and se = True and ob = "''startTime''" and q = "''lunch''"
        and eid = "''ev1''"] e
    by (simp add: str_int_examples)
  from a b c show ?thesis by blast
qed

text \<open>
  C6. A boolean flag supplied to a tool reaches the query string as the lower-case text
  \<open>true\<close> or \<open>false\<close>: \<open>single_events\<close> of \<open>gcal_list_events\<close> and \<open>gcal_events_watch\<close> as
  the one \<open>singleEvents\<close> parameter, \<open>supports_attachments\<close> of \<open>gcal_create_event\<close> and
  \<open>gcal_import_event\<close> as the one \<open>supportsAttachments\<close> parameter. The value is never
  \<open>True\<close>, \<open>False\<close> or a number.
\<close>

theorem boolean_flags_lowercase:
  "(\<exists>qs. sent (snd (gcal_list_events c cid tmin tmax n b ob)) =
            sent c @ [(''gcal-mcp'',
              \<lparr>req_method = GET, req_path = ''/calendars/'' @ cid @ ''/events?'' @ qs,
               req_body = None\<rparr>)]
        \<and> map snd (filter (\<lambda>kv. fst kv = ''singleEvents'') (qs_params qs))
            = [if b then ''true'' else ''false''])
   \<and> (\<exists>qs. sent (snd (gcal_events_watch c cid ch tmin tmax (Some b))) =
            sent c @ [(''gcal-mcp'',
              \<lparr>req_method = POST, req_path = ''/calendars/'' @ cid @ ''/events/watch?'' @ qs,
               req_body = Some ch\<rparr>)]
        \<and> map snd (filter (\<lambda>kv. fst kv = ''singleEvents'') (qs_params qs))
            = [if b then ''true'' else ''false''])
   \<and> (\<exists>qs. sent (snd (gcal_create_event c cid ev su (Some b))) =
            sent c @ [(''gcal-mcp'',
              \<lparr>req_method = POST, req_path = ''/calendars/'' @ cid @ ''/events?'' @ qs,
               req_body = Some ev\<rparr>)]
        \<and> map snd (filter (\<lambda>kv. fst kv = ''supportsAttachments'') (qs_params qs))
            = [if b then ''true'' else ''false''])
   \<and> (\<exists>qs. sent (snd (gcal_import_event c cid ev (Some b))) =
            sent c @ [(''gcal-mcp'',
              \<lparr>req_method = POST, req_path = ''/calendars/'' @ cid @ ''/events/import?'' @ qs,
               req_body = Some ev\<rparr>)]
        \<and> map snd (filter (\<lambda>kv. fst kv = ''supportsAttachments'') (qs_params qs))
            = [if b then ''true'' else ''false''])
   \<and> (if b then ''true'' else ''false'') \<noteq> str_bool b"
proof -
  obtain qs1 where
    s1: "sent (snd (gcal_list_events c cid tmin tmax n b ob)) =
          sent c @ [(''gcal-mcp'',
            \<lparr>req_method = GET,
             req_path = (''/calendars/'' @ cid @ ''/events'') @ (if qs1 = [] then [] else ''?'' @ qs1),
             req_body = None\<rparr>)]"
    and p1: "qs_params qs1 =
          [(''maxResults'', str_int (max 1 (min 2500 n))),
           (''singleEvents'', if b then ''true'' else ''false'')]
          @ opt_param ''timeMin'' tmin @ opt_param ''timeMax'' tmax
          @ (if b then [(''orderBy'', ob)] else [])"
    using list_events_request by blast
  have a: "\<exists>qs. sent (snd (gcal_list_events c cid tmin tmax n b ob)) =
            sent c @ [(''gcal-mcp'',
              \<lparr>req_method = GET, req_path = ''/calendars/'' @ cid @ ''/events?'' @ qs,
               req_body = None\<rparr>)]
        \<and> map snd (filter (\<lambda>kv. fst kv = ''singleEvents'') (qs_params qs))
            = [if b then ''true'' else ''false'']"
    using s1 qs_params_nonempty[of qs1] p1
    by (intro exI[of _ qs1]) (simp add: filter_opt_param)
  obtain qs2 where
    s2: "sent (snd (gcal_events_watch c cid ch tmin tmax (Some b))) =
          sent c @ [(''gcal-mcp'',
            \<lparr>req_method = POST,
             req_path = (''/calendars/'' @ cid @ ''/events/watch'')
                        @ (if qs2 = [] then [] else ''?'' @ qs2),
             req_body = Some ch\<rparr>)]"
    and p2: "qs_params qs2 = some_param ''timeMin'' tmin @ some_param ''timeMax'' tmax
                          @ flag_param ''singleEvents'' (Some b)"
    using events_watch_request by blast
  from p2 have n2: "qs_params qs2 \<noteq> []"
    by (simp add: flag_param_def)
  then have q2: "(if qs2 = [] then [] else ''?'' @ qs2) = ''?'' @ qs2"
    using qs_params_Nil by auto
  have b2: "\<exists>qs. sent (snd (gcal_events_watch c cid ch tmin tmax (Some b))) =
            sent c @ [(''gcal-mcp'',
              \<lparr>req_method = POST, req_path = ''/calendars/'' @ cid @ ''/events/watch?'' @ qs,
               req_body = Some ch\<rparr>)]
        \<and> map snd (filter (\<lambda>kv. fst kv = ''singleEvents'') (qs_params qs))
            = [if b then ''true'' else ''false'']"
    using s2 q2 p2
    by (intro exI[of _ qs2]) (simp add: filter_some_param filter_flag_param_same)
  obtain qs3 where
    s3: "sent (snd (gcal_create_event c cid ev su (Some b))) =
          sent c @ [(''gcal-mcp'',
            \<lparr>req_method = POST,
             req_path = (''/calendars/'' @ cid @ ''/events'') @ (if qs3 = [] then [] else ''?'' @ qs3),
             req_body = Some ev\<rparr>)]"
    and p3: "qs_params qs3 = some_param ''sendUpdates'' su @ flag_param ''supportsAttachments'' (Some b)"
    using create_event_request by blast
  from p3 have "qs_params qs3 \<noteq> []"
    by (simp add: flag_param_def)
  then have q3: "(if qs3 = [] then [] else ''?'' @ qs3) = ''?'' @ qs3"
    using qs_params_Nil by auto
  have b3: "\<exists>qs. sent (snd (gcal_create_event c cid ev su (Some b))) =
            sent c @ [(''gcal-mcp'',
              \<lparr>req_method = POST, req_path = ''/calendars/'' @ cid @ ''/events?'' @ qs,
               req_body = Some ev\<rparr>)]
        \<and> map snd (filter (\<lambda>kv. fst kv = ''supportsAttachments'') (qs_params qs))
            = [if b then ''true'' else ''false'']"
    using s3 q3 p3
    by (intro exI[of _ qs3]) (simp add: filter_some_param filter_flag_param_same)
  obtain qs4 where
    s4: "sent (snd (gcal_import_event c cid ev (Some b))) =
          sent c @ [(''gcal-mcp'',
            \<lparr>req_method = POST,
             req_path = (''/calendars/'' @ cid @ ''/events/import'')
                        @ (if qs4 = [] then [] else ''?'' @ qs4),
             req_body = Some ev\<rparr>)]"
    and p4: "qs_params qs4 = flag_param ''supportsAttachments'' (Some b)"
    using import_event_request by blast
  from p4 have "qs_params qs4 \<noteq> []"
    by (simp add: flag_param_def)
  then have q4: "(if qs4 = [] then [] else ''?'' @ qs4) = ''?'' @ qs4"
    using qs_params_Nil by auto
  have b4: "\<exists>qs. sent (snd (gcal_import_event c cid ev (Some b))) =
            sent c @ [(''gcal-mcp'',
              \<lparr>req_method = POST, req_path = ''/calendars/'' @ cid @ ''/events/import?'' @ qs,
               req_body = Some ev\<rparr>)]
        \<and> map snd (filter (\<lambda>kv. fst kv = ''supportsAttachments'') (qs_params qs))
            = [if b then ''true'' else ''false'']"
    using s4 q4 p4
    by (intro exI[of _ qs4]) (simp add: filter_flag_param_same)
  have ne: "(if b then ''true'' else ''false'') \<noteq> str_bool b"
    by (simp add: str_bool_def)
  from a b2 b3 b4 ne show ?thesis
    by (intro conjI)
qed

theorem boolean_flags_lowercase_witness:
  "(\<exists>qs. sent (snd (gcal_list_events ok_ctx ''primary'' None None 25 True ''startTime'')) =
            [(''gcal-mcp'',
              \<lparr>req_method = GET, req_path = ''/calendars/primary/events?'' @ qs, req_body = None\<rparr>)]
        \<and> map snd (filter (\<lambda>kv. fst kv = ''singleEvents'') (qs_params qs)) = [''true''])
   \<and> (\<exists>qs. sent (snd (gcal_import_event ok_ctx ''primary'' [] (Some False))) =
            [(''gcal-mcp'',
              \<lparr>req_method = POST, req_path = ''/calendars/primary/events/import?'' @ qs,
               req_body = Some []\<rparr>)]
        \<and> map snd (filter (\<lambda>kv. fst kv = ''supportsAttachments'') (qs_params qs)) = [''false''])"
proof -
  have e: "sent ok_ctx = []"
    by (simp add: ok_ctx_def)
  have a: "\<exists>qs. sent (snd (gcal_list_events ok_ctx ''primary'' None None 25 True ''startTime'')) =
            [(''gcal-mcp'',
              \<lparr>req_method = GET, req_path = ''/calendars/primary/events?'' @ qs, req_body = None\<rparr>)]
        \<and> map snd (filter (\<lambda>kv. fst kv = ''singleEvents'') (qs_params qs)) = [''true'']"
    using boolean_flags_lowercase[where c = ok_ctx and cid = "''primary''" and tmin = None
        and tmax = None and n = 25 and b = True and ob = "''startTime''" and ch = "[]"
        and ev = "[]" and su = None] e
    by simp
  have b: "\<exists>qs. sent (snd (gcal_import_event ok_ctx ''primary'' [] (Some False))) =
            [(''gcal-mcp'',
              \<lparr>req_method = POST, req_path = ''/calendars/primary/events/import?'' @ qs,
               req_body = Some []\<rparr>)]
        \<and> map snd (filter (\<lambda>kv. fst kv = ''supportsAttachments'') (qs_params qs)) = [''false'']"
    using boolean_flags_lowercase[where c = ok_ctx and cid = "''primary''" and tmin = None
        and tmax = None and n = 25 and b = False and ob = "''startTime''" and ch = "[]"
        and ev = "[]" and su = None] e
    by simp
  from a b show ?thesis by blast
qed

text \<open>
  C7. \<open>gcal_list_events\<close> with \<open>calendar_id = "primary"\<close>,
  \<open>time_min = "2025-01-01T00:00:00Z"\<close>, no \<open>time_max\<close>, \<open>max_results = 10\<close>,
  \<open>single_events = True\<close> and \<open>order_by = "startTime"\<close> dispatches one request: a GET, with no
  body, of the path \<open>/calendars/primary/events\<close> followed by \<open>?\<close> and a query string that
  decodes to the four parameters \<open>maxResults = 10\<close>, \<open>singleEvents = true\<close>,
  \<open>timeMin = 2025-01-01T00:00:00Z\<close>, \<open>orderBy = startTime\<close>, and to nothing else.
\<close>

theorem list_events_scenario:
  "sent (snd (gcal_list_events c ''primary'' (Some ''2025-01-01T00:00:00Z'') None 10 True
                ''startTime'')) =
     sent c @ [(''gcal-mcp'',
       \<lparr>req_method = GET,
        req_path = ''/calendars/primary/events?maxResults=10&singleEvents=true&timeMin=2025-01-01T00%3A00%3A00Z&orderBy=startTime'',
        req_body = None\<rparr>)]
   \<and> qs_params ''maxResults=10&singleEvents=true&timeMin=2025-01-01T00%3A00%3A00Z&orderBy=startTime''
       = [(''maxResults'', ''10''), (''singleEvents'', ''true''),
          (''timeMin'', ''2025-01-01T00:00:00Z''), (''orderBy'', ''startTime'')]
   \<and> set (qs_params ''maxResults=10&singleEvents=true&timeMin=2025-01-01T00%3A00%3A00Z&orderBy=startTime'')
       = {(''maxResults'', ''10''), (''singleEvents'', ''true''),
          (''timeMin'', ''2025-01-01T00:00:00Z''), (''orderBy'', ''startTime'')}"
proof -
  let ?ps = "[(''maxResults'', PStr ''10''), (''singleEvents'', PStr ''true''),
              (''timeMin'', PStr ''2025-01-01T00:00:00Z''), (''orderBy'', PStr ''startTime'')]"
  let ?qs = "''maxResults=10&singleEvents=true&timeMin=2025-01-01T00%3A00%3A00Z&orderBy=startTime''"
  have call: "gcal_list_events c ''primary'' (Some ''2025-01-01T00:00:00Z'') None 10 True
                ''startTime'' = request c GET ''/calendars/primary/events'' (Some ?ps) None"
    by (simp add: gcal_list_events_def Let_def lower_str_bool str_int_10)
  have enc: "urlencode ?ps = ?qs"
    by (simp add: urlencode_def encode_pair_def quote_plus_examples)
  have dispatched: "sent (snd (request c GET ''/calendars/primary/events'' (Some ?ps) None)) =
      sent c @ [(''gcal-mcp'',
        \<lparr>req_method = GET, req_path = ''/calendars/primary/events'' @ ''?'' @ urlencode ?ps,
         req_body = None\<rparr>)]"
    by (simp add: request_sent final_path_def)
  have dec: "qs_params ?qs = [(''maxResults'', ''10''), (''singleEvents'', ''true''),
          (''timeMin'', ''2025-01-01T00:00:00Z''), (''orderBy'', ''startTime'')]"
    using qs_params_urlencode[of ?ps] by (simp add: enc)
  from call dispatched enc dec show ?thesis
    by simp
qed

theorem list_events_scenario_witness:
  "sent (snd (gcal_list_events ok_ctx ''primary'' (Some ''2025-01-01T00:00:00Z'') None 10 True
                ''startTime'')) =
     [(''gcal-mcp'',
       \<lparr>req_method = GET,
        req_path = ''/calendars/primary/events?maxResults=10&singleEvents=true&timeMin=2025-01-01T00%3A00%3A00Z&orderBy=startTime'',
        req_body = None\<rparr>)]"
  using list_events_scenario[of ok_ctx] by (simp add: ok_ctx_def)

text \<open>
  C10. \<open>gcal_list_events\<close> sends \<open>orderBy\<close> exactly when \<open>single_events\<close> is true: with
  \<open>single_events = False\<close> no parameter of the dispatched query string has the key
  \<open>orderBy\<close>, whatever \<open>order_by\<close> is; with \<open>single_events = True\<close> the query string has
  exactly one \<open>orderBy\<close> parameter and its value is \<open>order_by\<close>.
\<close>

theorem list_events_order_by:
  "(\<exists>qs. sent (snd (gcal_list_events c cid tmin tmax n False ob)) =
            sent c @ [(''gcal-mcp'',
              \<lparr>req_method = GET, req_path = ''/calendars/'' @ cid @ ''/events?'' @ qs,
               req_body = None\<rparr>)]
        \<and> ''orderBy'' \<notin> fst ` set (qs_params qs))
   \<and> (\<exists>qs. sent (snd (gcal_list_events c cid tmin tmax n True ob)) =
            sent c @ [(''gcal-mcp'',
              \<lparr>req_method = GET, req_path = ''/calendars/'' @ cid @ ''/events?'' @ qs,
               req_body = None\<rparr>)]
        \<and> map snd (filter (\<lambda>kv. fst kv = ''orderBy'') (qs_params qs)) = [ob])"
proof -
  obtain qs1 where
    s1: "sent (snd (gcal_list_events c cid tmin tmax n False ob)) =
          sent c @ [(''gcal-mcp'',
            \<lparr>req_method = GET,
             req_path = (''/calendars/'' @ cid @ ''/events'') @ (if qs1 = [] then [] else ''?'' @ qs1),
             req_body = None\<rparr>)]"
    and p1: "qs_params qs1 =
          [(''maxResults'', str_int (max 1 (min 2500 n))),
           (''singleEvents'', if False then ''true'' else ''false'')]
          @ opt_param ''timeMin'' tmin @ opt_param ''timeMax'' tmax
          @ (if False then [(''orderBy'', ob)] else [])"
    using list_events_request by blast
  have k1: "''orderBy'' \<notin> fst ` set (qs_params qs1)"
    by (auto simp: p1 opt_param_def split: option.splits if_splits)
  have a: "\<exists>qs. sent (snd (gcal_list_events c cid tmin tmax n False ob)) =
            sent c @ [(''gcal-mcp'',
              \<lparr>req_method = GET, req_path = ''/calendars/'' @ cid @ ''/events?'' @ qs,
               req_body = None\<rparr>)]
        \<and> ''orderBy'' \<notin> fst ` set (qs_params qs)"
    using s1 qs_params_nonempty[of qs1] p1 k1
    by (intro exI[of _ qs1]) simp
  obtain qs2 where
    s2: "sent (snd (gcal_list_events c cid tmin tmax n True ob)) =
          sent c @ [(''gcal-mcp'',
            \<lparr>req_method = GET,
             req_path = (''/calendars/'' @ cid @ ''/events'') @ (if qs2 = [] then [] else ''?'' @ qs2),
             req_body = None\<rparr>)]"
    and p2: "qs_params qs2 =
          [(''maxResults'', str_int (max 1 (min 2500 n))),
           (''singleEvents'', if True then ''true'' else ''false'')]
          @ opt_param ''timeMin'' tmin @ opt_param ''timeMax'' tmax
          @ (if True then [(''orderBy'', ob)] else [])"
    using list_events_request by blast
  have b: "\<exists>qs. sent (snd (gcal_list_events c cid tmin tmax n True ob)) =
            sent c @ [(''gcal-mcp'',
              \<lparr>req_method = GET, req_path = ''/calendars/'' @ cid @ ''/events?'' @ qs,
               req_body = None\<rparr>)]
        \<and> map snd (filter (\<lambda>kv. fst kv = ''orderBy'') (qs_params qs)) = [ob]"
    using s2 qs_params_nonempty[of qs2] p2
    by (intro exI[of _ qs2]) (simp add: filter_opt_param)
  from a b show ?thesis by (rule conjI)
qed

theorem list_events_order_by_witness:
  "(\<exists>qs. sent (snd (gcal_list_events ok_ctx ''primary'' None None 25 False ''updated'')) =
            [(''gcal-mcp'',
              \<lparr>req_method = GET, req_path = ''/calendars/primary/events?'' @ qs, req_body = None\<rparr>)]
        \<and> ''orderBy'' \<notin> fst ` set (qs_params qs))
   \<and> (\<exists>qs. sent (snd (gcal_list_events ok_ctx ''primary'' None None 25 True ''updated'')) =
            [(''gcal-mcp'',
              \<lparr>req_method = GET, req_path = ''/calendars/primary/events?'' @ qs, req_body = None\<rparr>)]
        \<and> map snd (filter (\<lambda>kv. fst kv = ''orderBy'') (qs_params qs)) = [''updated''])"
  using list_events_order_by[of ok_ctx "''primary''" None None 25 "''updated''"]
  by (simp add: ok_ctx_def)

text \<open>
  C9. \<open>gcal_get_freebusy\<close> dispatches a POST of \<open>/freeBusy\<close> whose body has exactly one
  \<open>timeMin\<close> and one \<open>timeMax\<close> field, the arguments \<open>time_min\<close> and \<open>time_max\<close>, and exactly
  one \<open>items\<close> field: the one-element list \<open>[{"id": "primary"}]\<close> when \<open>calendar_ids\<close> is
  \<open>None\<close>, and one \<open>{"id": cal_id}\<close> record per supplied id, in order, when it is supplied.
\<close>

theorem freebusy_items:
  "(\<exists>body. sent (snd (gcal_get_freebusy c tmin tmax None tz)) =
            sent c @ [(''gcal-mcp'',
              \<lparr>req_method = POST, req_path = ''/freeBusy'', req_body = Some body\<rparr>)]
        \<and> map snd (filter (\<lambda>kv. fst kv = ''items'') body) = [JList [JObj [(''id'', JStr ''primary'')]]]
        \<and> map snd (filter (\<lambda>kv. fst kv = ''timeMin'') body) = [JStr tmin]
        \<and> map snd (filter (\<lambda>kv. fst kv = ''timeMax'') body) = [JStr tmax])
   \<and> (\<exists>body. sent (snd (gcal_get_freebusy c tmin tmax (Some ids) tz)) =
            sent c @ [(''gcal-mcp'',
              \<lparr>req_method = POST, req_path = ''/freeBusy'', req_body = Some body\<rparr>)]
        \<and> map snd (filter (\<lambda>kv. fst kv = ''items'') body)
            = [JList (map (\<lambda>cal_id. JObj [(''id'', JStr cal_id)]) ids)]
        \<and> map snd (filter (\<lambda>kv. fst kv = ''timeMin'') body) = [JStr tmin]
        \<and> map snd (filter (\<lambda>kv. fst kv = ''timeMax'') body) = [JStr tmax])"
proof -
  have a: "\<exists>body. sent (snd (gcal_get_freebusy c tmin tmax None tz)) =
            sent c @ [(''gcal-mcp'',
              \<lparr>req_method = POST, req_path = ''/freeBusy'', req_body = Some body\<rparr>)]
        \<and> map snd (filter (\<lambda>kv. fst kv = ''items'') body) = [JList [JObj [(''id'', JStr ''primary'')]]]
        \<and> map snd (filter (\<lambda>kv. fst kv = ''timeMin'') body) = [JStr tmin]
        \<and> map snd (filter (\<lambda>kv. fst kv = ''timeMax'') body) = [JStr tmax]"
    by (simp add: freebusy_request filter_opt_field)
  have b: "\<exists>body. sent (snd (gcal_get_freebusy c tmin tmax (Some ids) tz)) =
            sent c @ [(''gcal-mcp'',
              \<lparr>req_method = POST, req_path = ''/freeBusy'', req_body = Some body\<rparr>)]
        \<and> map snd (filter (\<lambda>kv. fst kv = ''items'') body)
            = [JList (map (\<lambda>cal_id. JObj [(''id'', JStr cal_id)]) ids)]
        \<and> map snd (filter (\<lambda>kv. fst kv = ''timeMin'') body) = [JStr tmin]
        \<and> map snd (filter (\<lambda>kv. fst kv = ''timeMax'') body) = [JStr tmax]"
    by (simp add: freebusy_request filter_opt_field)
  from a b show ?thesis by (rule conjI)
qed

theorem freebusy_items_witness:
  "(\<exists>body. sent (snd (gcal_get_freebusy ok_ctx ''2025-01-01T00:00:00Z'' ''2025-01-02T00:00:00Z''
                        None None)) =
            [(''gcal-mcp'',
              \<lparr>req_method = POST, req_path = ''/freeBusy'', req_body = Some body\<rparr>)]
        \<and> map snd (filter (\<lambda>kv. fst kv = ''items'') body) = [JList [JObj [(''id'', JStr ''primary'')]]]
        \<and> map snd (filter (\<lambda>kv. fst kv = ''timeMin'') body) = [JStr ''2025-01-01T00:00:00Z'']
        \<and> map snd (filter (\<lambda>kv. fst kv = ''timeMax'') body) = [JStr ''2025-01-02T00:00:00Z''])
   \<and> (\<exists>body. sent (snd (gcal_get_freebusy ok_ctx ''2025-01-01T00:00:00Z'' ''2025-01-02T00:00:00Z''
                        (Some [''a@x.org'', ''b@x.org'']) None)) =
            [(''gcal-mcp'',
              \<lparr>req_method = POST, req_path = ''/freeBusy'', req_body = Some body\<rparr>)]
        \<and> map snd (filter (\<lambda>kv. fst kv = ''items'') body)
            = [JList [JObj [(''id'', JStr ''a@x.org'')], JObj [(''id'', JStr ''b@x.org'')]]])"
proof -
  have e: "sent ok_ctx = []"
    by (simp add: ok_ctx_def)
  note t = freebusy_items[of ok_ctx "''2025-01-01T00:00:00Z''" "''2025-01-02T00:00:00Z''" None
      "[''a@x.org'', ''b@x.org'']"]
  from t e have a: "\<exists>body. sent (snd (gcal_get_freebusy ok_ctx ''2025-01-01T00:00:00Z''
                        ''2025-01-02T00:00:00Z'' None None)) =
            [(''gcal-mcp'',
              \<lparr>req_method = POST, req_path = ''/freeBusy'', req_body = Some body\<rparr>)]
        \<and> map snd (filter (\<lambda>kv. fst kv = ''items'') body) = [JList [JObj [(''id'', JStr ''primary'')]]]
        \<and> map snd (filter (\<lambda>kv. fst kv = ''timeMin'') body) = [JStr ''2025-01-01T00:00:00Z'']
        \<and> map snd (filter (\<lambda>kv. fst kv = ''timeMax'') body) = [JStr ''2025-01-02T00:00:00Z'']"
    by simp
  from t e have b: "\<exists>body. sent (snd (gcal_get_freebusy ok_ctx ''2025-01-01T00:00:00Z''
                        ''2025-01-02T00:00:00Z'' (Some [''a@x.org'', ''b@x.org'']) None)) =
            [(''gcal-mcp'',
              \<lparr>req_method = POST, req_path = ''/freeBusy'', req_body = Some body\<rparr>)]
        \<and> map snd (filter (\<lambda>kv. fst kv = ''items'') body)
            = [JList [JObj [(''id'', JStr ''a@x.org'')], JObj [(''id'', JStr ''b@x.org'')]]]"
    by auto
  from a b show ?thesis by (rule conjI)
qed

text \<open>
  C4. Every result that \<open>request\<close> returns, and so every result that a tool returns,
  satisfies the invariant: \<open>success = True\<close> implies that \<open>error\<close> is \<open>None\<close>;
  \<open>success = False\<close> implies that \<open>data\<close> is \<open>None\<close> and that \<open>error\<close> holds a string.
\<close>

theorem results_satisfy_invariant:
  "(fst (request c m p ps b) = Inr r \<longrightarrow> result_invariant r)
   \<and> (fst (run_tool c t) = Inr r' \<longrightarrow> result_invariant r')"
proof -
  obtain m' p' ps' b' where "run_tool c t = request c m' p' ps' b'"
    using run_tool_request by blast
  then show ?thesis
    using request_invariant[of c m p ps b r] request_invariant[of c m' p' ps' b' r']
    by simp
qed

theorem results_satisfy_invariant_witness:
  "result_invariant \<lparr>success = True, data = JObj [(''kind'', JStr ''calendar#events'')],
                      error = None\<rparr>
   \<and> result_invariant \<lparr>success = False, data = JNull, error = Some ''Not Found''\<rparr>"
proof -
  have a: "fst (request ok_ctx GET ''/colors'' None None) =
      Inr \<lparr>success = True, data = JObj [(''kind'', JStr ''calendar#events'')], error = None\<rparr>"
    by (simp add: request_eq to_result_def ok_ctx_def ok_handler_def)
  have b: "fst (run_tool not_found_ctx GetColors) =
      Inr \<lparr>success = False, data = JNull, error = Some ''Not Found''\<rparr>"
    by (simp add: gcal_get_colors_def request_eq to_result_def not_found_ctx_def
        not_found_handler_def)
  from results_satisfy_invariant[where c = ok_ctx and m = GET and p = "''/colors''"
      and ps = None and b = None and t = GetColors
      and r = "\<lparr>success = True, data = JObj [(''kind'', JStr ''calendar#events'')], error = None\<rparr>"] a
  have x: "result_invariant \<lparr>success = True, data = JObj [(''kind'', JStr ''calendar#events'')],
                      error = None\<rparr>"
    by simp
  from results_satisfy_invariant[where c = not_found_ctx and m = GET and p = "''/colors''"
      and ps = None and b = None and t = GetColors
      and r' = "\<lparr>success = False, data = JNull, error = Some ''Not Found''\<rparr>"] b
  have y: "result_invariant \<lparr>success = False, data = JNull, error = Some ''Not Found''\<rparr>"
    by simp
  from x y show ?thesis by (rule conjI)
qed

text \<open>
  C8, as the claim states it, fails: \<open>calendar_ids\<close> of \<open>gcal_get_freebusy\<close> is an optional
  argument, and when it is \<open>None\<close> the body still has the key \<open>items\<close> that carries it,
  with the default \<open>[{"id": "primary"}]\<close>.
\<close>

theorem freebusy_absent_calendar_ids_sent:
  "''items'' \<in> body_keys (req_body (snd (last (sent (snd
      (gcal_get_freebusy ok_ctx ''2025-01-01T00:00:00Z'' ''2025-01-02T00:00:00Z'' None None))))))"
  by (simp add: freebusy_request body_keys_def opt_field_def)

text \<open>
  C8, amended. For every tool, an optional argument that is \<open>None\<close> puts no key into the
  query string or the body of the dispatched request, \<open>calendar_ids\<close> of
  \<open>gcal_get_freebusy\<close> apart (for it \<open>None\<close> means the default, sent as \<open>items\<close>). In
  particular \<open>gcal_create_event\<close> with \<open>send_updates = None\<close> dispatches a request whose
  query string has no \<open>sendUpdates\<close> key.
\<close>

theorem absent_parameters_omitted:
  "(\<exists>qs. sent (snd (run_tool c t)) =
            sent c @ [(''gcal-mcp'',
              \<lparr>req_method = tool_method t,
               req_path = tool_path t @ (if qs = [] then [] else ''?'' @ qs),
               req_body = tool_body t\<rparr>)]
        \<and> (\<forall>k \<in> set (absent_query_keys t). k \<notin> fst ` set (qs_params qs))
        \<and> (\<forall>k \<in> set (absent_body_keys t). k \<notin> body_keys (tool_body t)))
   \<and> (\<exists>qs. sent (snd (gcal_create_event c cid ev None sa)) =
            sent c @ [(''gcal-mcp'',
              \<lparr>req_method = POST,
               req_path = ''/calendars/'' @ cid @ ''/events'' @ (if qs = [] then [] else ''?'' @ qs),
               req_body = Some ev\<rparr>)]
        \<and> ''sendUpdates'' \<notin> fst ` set (qs_params qs))"
proof -
  obtain qs where
    s: "sent (snd (run_tool c t)) =
            sent c @ [(''gcal-mcp'',
              \<lparr>req_method = tool_method t,
               req_path = tool_path t @ (if qs = [] then [] else ''?'' @ qs),
               req_body = tool_body t\<rparr>)]"
    and q: "qs_params qs = tool_query t"
    using run_tool_wire by blast
  have a: "\<exists>qs. sent (snd (run_tool c t)) =
            sent c @ [(''gcal-mcp'',
              \<lparr>req_method = tool_method t,
               req_path = tool_path t @ (if qs = [] then [] else ''?'' @ qs),
               req_body = tool_body t\<rparr>)]
        \<and> (\<forall>k \<in> set (absent_query_keys t). k \<notin> fst ` set (qs_params qs))
        \<and> (\<forall>k \<in> set (absent_body_keys t). k \<notin> body_keys (tool_body t))"
    using s q absent_query_not_sent[of _ t] absent_body_not_sent[of _ t]
    by (intro exI[of _ qs]) simp
  obtain qs' where
    s': "sent (snd (gcal_create_event c cid ev None sa)) =
          sent c @ [(''gcal-mcp'',
            \<lparr>req_method = POST,
             req_path = (''/calendars/'' @ cid @ ''/events'') @ (if qs' = [] then [] else ''?'' @ qs'),
             req_body = Some ev\<rparr>)]"
    and q': "qs_params qs' = some_param ''sendUpdates'' None @ flag_param ''supportsAttachments'' sa"
    using create_event_request by blast
  have k: "''sendUpdates'' \<notin> fst ` set (qs_params qs')"
    by (auto simp: q' some_param_def flag_param_def split: option.splits)
  have b: "\<exists>qs. sent (snd (gcal_create_event c cid ev None sa)) =
            sent c @ [(''gcal-mcp'',
              \<lparr>req_method = POST,
               req_path = ''/calendars/'' @ cid @ ''/events'' @ (if qs = [] then [] else ''?'' @ qs),
               req_body = Some ev\<rparr>)]
        \<and> ''sendUpdates'' \<notin> fst ` set (qs_params qs)"
    using s' k by (intro exI[of _ qs']) simp
  from a b show ?thesis by (rule conjI)
qed

theorem absent_parameters_omitted_witness:
  "(\<exists>qs. sent (snd (run_tool ok_ctx (CreateEvent ''primary'' [(''summary'', JStr ''Lunch'')]
                None (Some True)))) =
            [(''gcal-mcp'',
              \<lparr>req_method = POST,
               req_path = ''/calendars/primary/events'' @ (if qs = [] then [] else ''?'' @ qs),
               req_body = Some [(''summary'', JStr ''Lunch'')]\<rparr>)]
        \<and> ''sendUpdates'' \<notin> fst ` set (qs_params qs))
   \<and> (sent (snd (run_tool ok_ctx (CreateCalendar ''Team'' None (Some ''UTC'') None))) =
            [(''gcal-mcp'',
              \<lparr>req_method = POST, req_path = ''/calendars'',
               req_body = Some [(''summary'', JStr ''Team''), (''timeZone'', JStr ''UTC'')]\<rparr>)]
        \<and> ''description'' \<notin> body_keys (Some [(''summary'', JStr ''Team''), (''timeZone'', JStr ''UTC'')])
        \<and> ''location'' \<notin> body_keys (Some [(''summary'', JStr ''Team''), (''timeZone'', JStr ''UTC'')]))"
proof -
  have e: "sent ok_ctx = []"
    by (simp add: ok_ctx_def)
  obtain qs0 where
    s0: "sent (snd (gcal_create_event ok_ctx ''primary'' [(''summary'', JStr ''Lunch'')] None
                  (Some True))) =
            sent ok_ctx @ [(''gcal-mcp'',
              \<lparr>req_method = POST,
               req_path = ''/calendars/'' @ ''primary'' @ ''/events''
                          @ (if qs0 = [] then [] else ''?'' @ qs0),
               req_body = Some [(''summary'', JStr ''Lunch'')]\<rparr>)]"
    and k0: "''sendUpdates'' \<notin> fst ` set (qs_params qs0)"
    using absent_parameters_omitted[where c = ok_ctx and t = GetColors and cid = "''primary''"
        and ev = "[(''summary'', JStr ''Lunch'')]" and sa = "Some True"]
    by blast
  have a: "\<exists>qs. sent (snd (run_tool ok_ctx (CreateEvent ''primary'' [(''summary'', JStr ''Lunch'')]
                None (Some True)))) =
            [(''gcal-mcp'',
              \<lparr>req_method = POST,
               req_path = ''/calendars/primary/events'' @ (if qs = [] then [] else ''?'' @ qs),
               req_body = Some [(''summary'', JStr ''Lunch'')]\<rparr>)]
        \<and> ''sendUpdates'' \<notin> fst ` set (qs_params qs)"
    using s0 k0 e by (intro exI[of _ qs0]) simp
  obtain qs where
    s: "sent (snd (run_tool ok_ctx (CreateCalendar ''Team'' None (Some ''UTC'') None))) =
            sent ok_ctx @ [(''gcal-mcp'',
              \<lparr>req_method = tool_method (CreateCalendar ''Team'' None (Some ''UTC'') None),
               req_path = tool_path (CreateCalendar ''Team'' None (Some ''UTC'') None)
                          @ (if qs = [] then [] else ''?'' @ qs),
               req_body = tool_body (CreateCalendar ''Team'' None (Some ''UTC'') None)\<rparr>)]"
    and k: "\<forall>k \<in> set (absent_body_keys (CreateCalendar ''Team'' None (Some ''UTC'') None)).
              k \<notin> body_keys (tool_body (CreateCalendar ''Team'' None (Some ''UTC'') None))"
    using absent_parameters_omitted[where c = ok_ctx
        and t = "CreateCalendar ''Team'' None (Some ''UTC'') None"]
    by blast
  have direct: "sent (snd (run_tool ok_ctx (CreateCalendar ''Team'' None (Some ''UTC'') None))) =
            [(''gcal-mcp'',
              \<lparr>req_method = POST, req_path = ''/calendars'',
               req_body = Some [(''summary'', JStr ''Team''), (''timeZone'', JStr ''UTC'')]\<rparr>)]"
    by (simp add: create_calendar_request some_field_def e)
  from k have b: "''description'' \<notin> body_keys (Some [(''summary'', JStr ''Team''), (''timeZone'', JStr ''UTC'')])
        \<and> ''location'' \<notin> body_keys (Some [(''summary'', JStr ''Team''), (''timeZone'', JStr ''UTC'')])"
    by (simp add: absent_body_keys_def absent_def tool_body_def some_field_def)
  from a direct b show ?thesis by blast
qed

end
